theory Spec2Isabelle
  imports Complex_Main
begin

section \<open>The regular-expression fragment behind \<open>isValidZipCode\<close>\<close>

text \<open>
  Both copies of \<^verbatim>\<open>isValidZipCode\<close> (service-a) are
  \<^verbatim>\<open>match, _ := regexp.MatchString(`^\d{8}$`, zipCode); return match\<close>.
  \<^verbatim>\<open>regexp.MatchString\<close> compiles the pattern and, when that succeeds, reports whether the
  string contains a match. The fragment of Go's RE2 syntax modelled here is the one the
  pattern is written in: the anchors \<^verbatim>\<open>^\<close> and \<^verbatim>\<open>$\<close> (without the multi-line flag: begin
  and end of the text), the Perl class \<^verbatim>\<open>\d\<close> (the ASCII digits), literal bytes, escaped
  punctuation and the counted repetition \<^verbatim>\<open>{n}\<close>. Every other metacharacter or escape is
  reported as \<open>OutsideFragment\<close>: the model says nothing about such patterns.
\<close>

datatype regexp = BeginText | EndText | DigitClass | Literal char | Repeat nat regexp

datatype regexp_error =
    TrailingBackslash | MissingRepeatArgument | InvalidRepeatOp | InvalidRepeatSize
  | OutsideFragment

definition backslash :: char where
  "backslash = CHR 0x5C"

definition is_digit :: "char \<Rightarrow> bool" where
  "is_digit c = (c \<in> set ''0123456789'')"

definition is_alnum :: "char \<Rightarrow> bool" where
  "is_alnum c = (c \<in> set ''abcdefghijklmnopqrstuvwxyzABCDEFGHIJKLMNOPQRSTUVWXYZ0123456789'')"

text \<open>A backslash makes any ASCII byte that is not a letter or a digit a literal.\<close>

definition is_punct :: "char \<Rightarrow> bool" where
  "is_punct c = (of_char c < (128::nat) \<and> \<not> is_alnum c)"

definition is_meta :: "char \<Rightarrow> bool" where
  "is_meta c = (c \<in> set ''()[]*+?|.'')"

fun digits_value :: "string \<Rightarrow> nat \<Rightarrow> nat" where
  "digits_value [] acc = acc"
| "digits_value (c # cs) acc = digits_value cs (10 * acc + (of_char c - 48))"

text \<open>
  A repetition count is one or more digits without a leading zero (a single \<^verbatim>\<open>0\<close> is a
  count). The text after an opening brace is a counted repetition when it is a count
  followed by a closing brace; the result is the count and the rest of the pattern.
  Otherwise the brace is a literal.
\<close>

definition is_count :: "string \<Rightarrow> bool" where
  "is_count ds = (case ds of [] \<Rightarrow> False | d # ds' \<Rightarrow> if d = CHR ''0'' then ds' = [] else True)"

definition parse_repeat :: "string \<Rightarrow> (nat \<times> string) option" where
  "parse_repeat cs =
     (let ds = takeWhile is_digit cs; rest = dropWhile is_digit cs
      in if \<not> is_count ds then None
         else (case rest of
                 [] \<Rightarrow> None
               | r # rest' \<Rightarrow> if r = CHR ''}'' then Some (digits_value ds 0, rest') else None))"

text \<open>
  A count followed by a comma may start one of the forms \<^verbatim>\<open>{n,}\<close> and \<^verbatim>\<open>{n,m}\<close>, which are
  outside the fragment.
\<close>

definition repeat_range :: "string \<Rightarrow> bool" where
  "repeat_range cs =
     (is_count (takeWhile is_digit cs) \<and>
      (case dropWhile is_digit cs of [] \<Rightarrow> False | r # _ \<Rightarrow> r = CHR '',''))"

function parse :: "string \<Rightarrow> regexp list \<Rightarrow> regexp_error + regexp list" where
  "parse [] acc = Inr (rev acc)"
| "parse (c # cs) acc =
     (if c = CHR ''^'' then parse cs (BeginText # acc)
      else if c = CHR ''$'' then parse cs (EndText # acc)
      else if c = backslash then
        (case cs of
           [] \<Rightarrow> Inl TrailingBackslash
         | e # cs' \<Rightarrow>
             if e = CHR ''d'' then parse cs' (DigitClass # acc)
             else if is_punct e then parse cs' (Literal e # acc)
             else Inl OutsideFragment)
      else if c = CHR ''{'' then
        (case parse_repeat cs of
           None \<Rightarrow> if repeat_range cs then Inl OutsideFragment else parse cs (Literal c # acc)
         | Some (n, rest) \<Rightarrow>
             if n > 1000 then Inl InvalidRepeatSize
             else
               (case acc of
                  [] \<Rightarrow> Inl MissingRepeatArgument
                | Repeat _ _ # _ \<Rightarrow> Inl InvalidRepeatOp
                | a # acc' \<Rightarrow> parse rest (Repeat n a # acc')))
      else if is_meta c then Inl OutsideFragment
      else parse cs (Literal c # acc))"
  by pat_completeness auto
termination
proof -
  have shorter: "length rest < Suc (length cs)" if "parse_repeat cs = Some (n, rest)"
    for cs rest :: string and n :: nat
  proof -
    from that obtain r where "dropWhile is_digit cs = r # rest"
      by (auto simp: parse_repeat_def Let_def split: if_splits list.splits)
    then have "length (dropWhile is_digit cs) = Suc (length rest)" by simp
    moreover have "length (dropWhile is_digit cs) \<le> length cs" by (rule length_dropWhile_le)
    ultimately show ?thesis by simp
  qed
  show ?thesis
    by (relation "measure (\<lambda>(cs, acc). length cs)") (auto dest: shorter)
qed

definition compile :: "string \<Rightarrow> regexp_error + regexp list" where
  "compile pattern = parse pattern []"

subsection \<open>Matching\<close>

text \<open>
  A matcher state is the number of bytes already consumed and the bytes that remain.
  Nothing in the fragment branches, so an expression matches at a position in at most
  one way.
\<close>

fun iterate :: "nat \<Rightarrow> ('a \<Rightarrow> 'a option) \<Rightarrow> 'a \<Rightarrow> 'a option" where
  "iterate 0 f x = Some x"
| "iterate (Suc n) f x = (case f x of None \<Rightarrow> None | Some y \<Rightarrow> iterate n f y)"

primrec match_one :: "regexp \<Rightarrow> nat \<times> string \<Rightarrow> (nat \<times> string) option" where
  "match_one BeginText = (\<lambda>(i, s). if i = 0 then Some (i, s) else None)"
| "match_one EndText = (\<lambda>(i, s). if s = [] then Some (i, s) else None)"
| "match_one DigitClass =
     (\<lambda>(i, s). case s of [] \<Rightarrow> None | c # cs \<Rightarrow> if is_digit c then Some (Suc i, cs) else None)"
| "match_one (Literal a) =
     (\<lambda>(i, s). case s of [] \<Rightarrow> None | c # cs \<Rightarrow> if c = a then Some (Suc i, cs) else None)"
| "match_one (Repeat n r) = iterate n (match_one r)"

fun match_seq :: "regexp list \<Rightarrow> nat \<times> string \<Rightarrow> (nat \<times> string) option" where
  "match_seq [] p = Some p"
| "match_seq (r # rs) p = (case match_one r p of None \<Rightarrow> None | Some q \<Rightarrow> match_seq rs q)"

text \<open>The unanchored search of \<^verbatim>\<open>MatchString\<close>: try every start position, left to right.\<close>

fun search :: "regexp list \<Rightarrow> nat \<Rightarrow> string \<Rightarrow> bool" where
  "search re i [] = (match_seq re (i, []) \<noteq> None)"
| "search re i (c # cs) = (match_seq re (i, c # cs) \<noteq> None \<or> search re (Suc i) cs)"

definition MatchString :: "string \<Rightarrow> string \<Rightarrow> bool \<times> regexp_error option" where
  "MatchString pattern s =
     (case compile pattern of
        Inl e \<Rightarrow> (False, Some e)
      | Inr re \<Rightarrow> (search re 0 s, None))"

definition zip_pattern :: string where
  "zip_pattern = [CHR ''^'', backslash, CHR ''d'', CHR ''{'', CHR ''8'', CHR ''}'', CHR ''$'']"

definition isValidZipCode :: "string \<Rightarrow> bool" where
  "isValidZipCode zipCode = (let (match, _) = MatchString zip_pattern zipCode in match)"


section \<open>\<^verbatim>\<open>float64\<close> arithmetic\<close>

text \<open>
  The temperature fields are \<^verbatim>\<open>float64\<close>. A value is a rational that binary64 represents,
  an infinity or a NaN; the sign of zero is not represented (no operation of the handlers
  depends on it). \<open>f64_round\<close> is IEEE 754 round-to-nearest, ties-to-even, at 53 bits of
  precision, with gradual underflow below \<open>2\<^sup>-\<^sup>1\<^sup>0\<^sup>2\<^sup>2\<close> and overflow to an infinity from
  \<open>2\<^sup>1\<^sup>0\<^sup>2\<^sup>4\<close> on. Products and sums are computed exactly and rounded once, as the
  unfused machine operations do.
\<close>

datatype float64 = Finite rat | PosInf | NegInf | NaN

definition round_half_even :: "rat \<Rightarrow> int" where
  "round_half_even x =
     (let f = \<lfloor>x\<rfloor>; d = x - of_int f
      in if d < 1 / 2 then f else if 1 / 2 < d then f + 1 else if even f then f else f + 1)"

text \<open>
  The spacing of the doubles around a positive \<open>x\<close>: the power of two \<open>u\<close> with
  \<open>2\<^sup>5\<^sup>2 u \<le> x < 2\<^sup>5\<^sup>3 u\<close>, and \<open>2\<^sup>-\<^sup>1\<^sup>0\<^sup>7\<^sup>4\<close> for the subnormal \<open>x\<close>. The search starts at \<open>u = 1\<close>.
\<close>

function spacing_up :: "rat \<Rightarrow> rat \<Rightarrow> rat" where
  "spacing_up x u = (if 0 < u \<and> 2 ^ 53 * u \<le> x then spacing_up x (2 * u) else u)"
  by pat_completeness auto
termination
proof (relation "measure (\<lambda>(x, u). nat \<lfloor>x / u\<rfloor>)")
  fix x u :: rat
  assume a: "0 < u \<and> 2 ^ 53 * u \<le> x"
  then have "2 ^ 53 \<le> x / u" by (simp add: pos_le_divide_eq)
  then have "2 \<le> x / u" by simp
  then have "x / u / 2 \<le> x / u - 1" by simp
  then have "\<lfloor>x / u / 2\<rfloor> \<le> \<lfloor>x / u - 1\<rfloor>" by (rule floor_mono)
  then have "\<lfloor>x / (2 * u)\<rfloor> < \<lfloor>x / u\<rfloor>" by (simp add: field_simps)
  moreover from \<open>2 \<le> x / u\<close> have "0 < \<lfloor>x / u\<rfloor>" by simp
  ultimately show "((x, 2 * u), x, u) \<in> measure (\<lambda>(x, u). nat \<lfloor>x / u\<rfloor>)" by simp
qed simp

function spacing_down :: "rat \<Rightarrow> rat \<Rightarrow> rat" where
  "spacing_down x u =
     (if x < 2 ^ 52 * u \<and> 1 / 2 ^ 1074 < u then spacing_down x (u / 2) else u)"
  by pat_completeness auto
termination
proof (relation "measure (\<lambda>(x, u). nat \<lfloor>u * 2 ^ 1074\<rfloor>)")
  fix x u :: rat
  assume a: "x < 2 ^ 52 * u \<and> 1 / 2 ^ 1074 < u"
  define y where "y = u * 2 ^ 1074"
  have c: "(0::rat) < 2 ^ 1074" by (rule zero_less_power) simp
  from a have "1 / 2 ^ 1074 < u" ..
  with c have "1 < y" unfolding y_def by (simp only: pos_divide_less_eq)
  then have pos: "0 < \<lfloor>y\<rfloor>" by simp
  have "\<lfloor>y / 2\<rfloor> < \<lfloor>y\<rfloor>"
  proof (cases "2 \<le> y")
    case True
    then have "y / 2 \<le> y - 1" by simp
    then have "\<lfloor>y / 2\<rfloor> \<le> \<lfloor>y - 1\<rfloor>" by (rule floor_mono)
    then show ?thesis by simp
  next
    case False
    then have "y / 2 < 1" by simp
    then have "\<lfloor>y / 2\<rfloor> < 1" by (simp add: floor_less_iff)
    with pos show ?thesis by linarith
  qed
  moreover have "u / 2 * 2 ^ 1074 = y / 2" unfolding y_def by (simp only: times_divide_eq_left)
  ultimately have "nat \<lfloor>u / 2 * 2 ^ 1074\<rfloor> < nat \<lfloor>u * 2 ^ 1074\<rfloor>"
    using pos unfolding y_def by (simp only: zless_nat_conj)
  then show "((x, u / 2), x, u) \<in> measure (\<lambda>(x, u). nat \<lfloor>u * 2 ^ 1074\<rfloor>)"
    by (simp only: in_measure prod.case)
qed simp

definition spacing :: "rat \<Rightarrow> rat" where
  "spacing x = (if 2 ^ 53 \<le> x then spacing_up x 1 else spacing_down x 1)"

definition f64_round :: "rat \<Rightarrow> float64" where
  "f64_round x =
     (if x = 0 then Finite 0
      else let u = spacing \<bar>x\<bar>; r = of_int (round_half_even (x / u)) * u
           in if 2 ^ 1024 \<le> r then PosInf else if r \<le> - (2 ^ 1024) then NegInf else Finite r)"

fun f64_mul :: "float64 \<Rightarrow> float64 \<Rightarrow> float64" where
  "f64_mul (Finite x) (Finite y) = f64_round (x * y)"
| "f64_mul NaN _ = NaN"
| "f64_mul _ NaN = NaN"
| "f64_mul (Finite x) PosInf = (if x = 0 then NaN else if 0 < x then PosInf else NegInf)"
| "f64_mul (Finite x) NegInf = (if x = 0 then NaN else if 0 < x then NegInf else PosInf)"
| "f64_mul PosInf (Finite y) = (if y = 0 then NaN else if 0 < y then PosInf else NegInf)"
| "f64_mul NegInf (Finite y) = (if y = 0 then NaN else if 0 < y then NegInf else PosInf)"
| "f64_mul PosInf PosInf = PosInf"
| "f64_mul NegInf NegInf = PosInf"
| "f64_mul PosInf NegInf = NegInf"
| "f64_mul NegInf PosInf = NegInf"

fun f64_add :: "float64 \<Rightarrow> float64 \<Rightarrow> float64" where
  "f64_add (Finite x) (Finite y) = f64_round (x + y)"
| "f64_add NaN _ = NaN"
| "f64_add _ NaN = NaN"
| "f64_add PosInf NegInf = NaN"
| "f64_add NegInf PosInf = NaN"
| "f64_add PosInf _ = PosInf"
| "f64_add NegInf _ = NegInf"
| "f64_add _ PosInf = PosInf"
| "f64_add _ NegInf = NegInf"

text \<open>An untyped Go constant used in a \<^verbatim>\<open>float64\<close> expression is rounded to \<^verbatim>\<open>float64\<close>.\<close>

definition f64_const :: "rat \<Rightarrow> float64" where
  "f64_const q = f64_round q"


section \<open>HTTP messages and the response writer\<close>

text \<open>
  A header map holds one value per canonical key, which is all the handlers use
  (\<^verbatim>\<open>Header.Get\<close>, \<^verbatim>\<open>Header.Set\<close>). \<^verbatim>\<open>Get\<close> of a missing key is the empty string.
\<close>

type_synonym header = "string \<rightharpoonup> string"

definition Header_Get :: "header \<Rightarrow> string \<Rightarrow> string" where
  "Header_Get h k = (case h k of None \<Rightarrow> [] | Some v \<Rightarrow> v)"

text \<open>
  \<^verbatim>\<open>http.ResponseWriter\<close>: the header map the handler edits, the status line once it is
  written together with the headers that went out with it, and the body written so far.
  \<^verbatim>\<open>WriteHeader\<close> takes effect once; a \<^verbatim>\<open>Write\<close> before it sends status 200 first; a
  header set after the status line is written stays in the handler's map and is not sent.
  Status codes are final ones (200 to 999); the interim 1xx codes are not modelled.
\<close>

record response_writer =
  handler_header :: header
  written_status :: "nat option"
  sent_header :: header
  written_body :: string

definition new_writer :: response_writer where
  "new_writer = \<lparr>handler_header = Map.empty, written_status = None, sent_header = Map.empty,
                  written_body = []\<rparr>"

definition Header_Set :: "string \<Rightarrow> string \<Rightarrow> response_writer \<Rightarrow> response_writer" where
  "Header_Set k v w = w\<lparr>handler_header := (handler_header w)(k \<mapsto> v)\<rparr>"

definition WriteHeader :: "nat \<Rightarrow> response_writer \<Rightarrow> response_writer" where
  "WriteHeader code w =
     (if written_status w = None
      then w\<lparr>written_status := Some code, sent_header := handler_header w\<rparr>
      else w)"

definition Write :: "string \<Rightarrow> response_writer \<Rightarrow> response_writer" where
  "Write b w =
     (let w1 = (if written_status w = None then WriteHeader 200 w else w)
      in w1\<lparr>written_body := written_body w1 @ b\<rparr>)"

text \<open>
  \<^verbatim>\<open>http.Error(w, msg, code)\<close> sets the plain-text content type and the no-sniff header,
  writes the status and prints the message followed by a newline.
\<close>

definition http_Error :: "response_writer \<Rightarrow> string \<Rightarrow> nat \<Rightarrow> response_writer" where
  "http_Error w msg code =
     Write (msg @ ''\<newline>'')
       (WriteHeader code
         (Header_Set ''X-Content-Type-Options'' ''nosniff''
           (Header_Set ''Content-Type'' ''text/plain; charset=utf-8'' w)))"

text \<open>What the caller receives: a handler that returns without writing a status sends 200.\<close>

definition status_code :: "response_writer \<Rightarrow> nat" where
  "status_code w = (case written_status w of None \<Rightarrow> 200 | Some c \<Rightarrow> c)"

text \<open>
  An outbound call is one call of \<^verbatim>\<open>client.Get\<close>: the URL string it is given and the
  trace headers that the client's transport adds to the request. \<^verbatim>\<open>client.Get\<close> returns an
  error text (\<^verbatim>\<open>err != nil\<close>: the request cannot be built from the URL, or the transport
  fails) or a reply with a status and a body.
\<close>

record outbound =
  out_url :: string
  out_header :: header

record reply =
  reply_status :: nat
  reply_body :: string

section \<open>Trace contexts, propagation and spans\<close>

text \<open>
  A \<^verbatim>\<open>context.Context\<close> is modelled by the span context it carries, if any
  (\<^verbatim>\<open>context.Background()\<close> carries none). Identifiers are kept in their textual form:
  32 lower-case hexadecimal digits for a trace id, 16 for a span id, not all zero.
\<close>

record span_context =
  trace_id :: string
  span_id :: string
  sampled :: bool

type_synonym go_context = "span_context option"

definition is_lower_hex :: "char \<Rightarrow> bool" where
  "is_lower_hex c = (c \<in> set ''0123456789abcdef'')"

definition valid_id :: "nat \<Rightarrow> string \<Rightarrow> bool" where
  "valid_id n s = (length s = n \<and> list_all is_lower_hex s \<and> \<not> list_all (\<lambda>c. c = CHR ''0'') s)"

definition IsValid :: "span_context \<Rightarrow> bool" where
  "IsValid sc = (valid_id 32 (trace_id sc) \<and> valid_id 16 (span_id sc))"

text \<open>
  \<^verbatim>\<open>propagation.TraceContext\<close>, the propagator both services install: the W3C
  \<^verbatim>\<open>traceparent\<close> header, \<^verbatim>\<open><version>-<trace id>-<span id>-<flags>\<close>. \<^verbatim>\<open>Inject\<close> writes
  version 00. \<^verbatim>\<open>Extract\<close> reads the versions 00 to fe; the four parts are lower-case
  hexadecimal, the header ends after the flags or goes on after a further hyphen, and a
  header of version 00 has flags 00, 01 or 02. Only the sampled flag (the lowest bit of
  the flags) is kept; \<^verbatim>\<open>tracestate\<close> is not modelled. \<^verbatim>\<open>Inject\<close> writes nothing for a context
  without a valid span context, and \<^verbatim>\<open>Extract\<close> returns the context unchanged when the
  header is missing or malformed.
\<close>

definition format_traceparent :: "span_context \<Rightarrow> string" where
  "format_traceparent sc =
     ''00-'' @ trace_id sc @ ''-'' @ span_id sc @ ''-'' @ (if sampled sc then ''01'' else ''00'')"

definition parse_traceparent :: "string \<Rightarrow> span_context option" where
  "parse_traceparent h =
     (let ver = take 2 h; tid = take 32 (drop 3 h); sid = take 16 (drop 36 h);
          flags = take 2 (drop 53 h)
      in if 55 \<le> length h \<and> list_all is_lower_hex ver \<and> ver \<noteq> ''ff''
            \<and> h ! 2 = CHR ''-'' \<and> h ! 35 = CHR ''-'' \<and> h ! 52 = CHR ''-''
            \<and> valid_id 32 tid \<and> valid_id 16 sid \<and> list_all is_lower_hex flags
            \<and> (if length h = 55 then True else h ! 55 = CHR ''-'')
            \<and> (if ver = ''00'' then flags \<in> set [''00'', ''01'', ''02''] else True)
         then Some \<lparr>trace_id = tid, span_id = sid, sampled = (last flags \<in> set ''13579bdf'')\<rparr>
         else None)"

definition Inject :: "go_context \<Rightarrow> header \<Rightarrow> header" where
  "Inject ctx h =
     (case ctx of
        None \<Rightarrow> h
      | Some sc \<Rightarrow> if IsValid sc then h(''Traceparent'' \<mapsto> format_traceparent sc) else h)"

definition Extract :: "go_context \<Rightarrow> header \<Rightarrow> go_context" where
  "Extract ctx h =
     (case parse_traceparent (Header_Get h ''Traceparent'') of
        None \<Rightarrow> ctx
      | Some sc \<Rightarrow> Some sc)"

text \<open>
  Span events are the calls made on the service's own tracer (\<^verbatim>\<open>h.tracer\<close>):
  \<^verbatim>\<open>Start\<close> with a handle, the span name and the new span context, and \<^verbatim>\<open>End\<close> with the
  handle. The spans that the \<^verbatim>\<open>otelhttp\<close> wrappers open belong to the wrappers' tracer
  and are not logged here; they draw their identifiers from the same provider.
\<close>

datatype span_event = SpanStart nat string span_context | SpanEnd nat

text \<open>
  What one process changes while it serves a request: the number of identifiers drawn
  from the provider's random generator, the span events and the calls of \<^verbatim>\<open>client.Get\<close>,
  in order.
\<close>

record effects =
  ids_drawn :: nat
  events :: "span_event list"
  calls :: "outbound list"

section \<open>The environment\<close>

text \<open>
  Everything a handler obtains from outside the repository's code is a field of the
  environment: the identifiers the SDK's random generator yields (indexed by the number
  of draws), the configured request label (\<^verbatim>\<open>viper.GetString("REQUEST_NAME_OTEL")\<close>), what
  \<^verbatim>\<open>client.Get\<close> returns for an outbound call (\<open>transport\<close>: the error of building or sending
  the request, or the reply), and the results of \<^verbatim>\<open>encoding/json\<close> on the bodies involved.
  A decoder yields the error text or the value left in a zero-initialised struct; an
  encoder yields the bytes it writes, or nothing when it fails. For the request body of
  service-a the environment supplies only the syntax layer, \<open>scan_json\<close>: the first JSON
  value of the body, or the error text of a body that has none; storing that value into
  the struct is modelled below.
\<close>

datatype json =
    JNull | JBool bool | JNumber string | JString string | JArray "json list"
  | JObject "(string \<times> json) list"

record ZipCodeRequest =
  CEP :: string

text \<open>\<^verbatim>\<open>ZipCodeResponse\<close> of service-a; the fields are prefixed to keep them apart from \<^verbatim>\<open>LocationInfoAndCity\<close>.\<close>

record ZipCodeResponse =
  zr_City :: string
  zr_TempC :: float64
  zr_TempF :: float64
  zr_TempK :: float64

record LocationInfoAndCity =
  City :: string
  TempC :: float64
  TempF :: float64
  TempK :: float64

record LocationInfo =
  Localidade :: string

text \<open>\<^verbatim>\<open>WeatherInfo.Current.Temperature\<close>, the only field of the nested struct.\<close>

record WeatherInfo =
  Temperature :: float64

record world =
  trace_ids :: "nat \<Rightarrow> string"
  span_ids :: "nat \<Rightarrow> string"
  REQUEST_NAME_OTEL :: string
  transport :: "outbound \<Rightarrow> string + reply"
  scan_json :: "string \<Rightarrow> string + json"
  decode_ZipCodeResponse :: "string \<Rightarrow> string + ZipCodeResponse"
  decode_LocationInfo :: "string \<Rightarrow> string + LocationInfo"
  decode_WeatherInfo :: "string \<Rightarrow> string + WeatherInfo"
  encode_ZipCodeResponse :: "ZipCodeResponse \<Rightarrow> string option"
  encode_LocationInfoAndCity :: "LocationInfoAndCity \<Rightarrow> string option"

text \<open>
  A new span of the SDK: a child keeps its parent's trace id and sampling decision and
  gets a fresh span id; without a parent the span is a root with a fresh trace id, sampled.
\<close>

definition new_span :: "world \<Rightarrow> go_context \<Rightarrow> effects \<Rightarrow> span_context \<times> effects" where
  "new_span wd parent st =
     (let n = ids_drawn st;
          sc = (case parent of
                  None \<Rightarrow> \<lparr>trace_id = trace_ids wd n, span_id = span_ids wd n, sampled = True\<rparr>
                | Some p \<Rightarrow> \<lparr>trace_id = trace_id p, span_id = span_ids wd n, sampled = sampled p\<rparr>)
      in (sc, st\<lparr>ids_drawn := Suc n\<rparr>))"

text \<open>\<^verbatim>\<open>h.tracer.Start(ctx, name)\<close>: the context carrying the new span, and the span's handle.\<close>

definition tracer_Start :: "world \<Rightarrow> go_context \<Rightarrow> string \<Rightarrow> effects \<Rightarrow> (go_context \<times> nat) \<times> effects" where
  "tracer_Start wd ctx name st =
     (let (sc, st1) = new_span wd ctx st; h = ids_drawn st
      in ((Some sc, h), st1\<lparr>events := events st1 @ [SpanStart h name sc]\<rparr>))"

definition span_End :: "nat \<Rightarrow> effects \<Rightarrow> effects" where
  "span_End h st = st\<lparr>events := events st @ [SpanEnd h]\<rparr>"

text \<open>
  \<^verbatim>\<open>client.Get(url)\<close> on a client with a plain \<^verbatim>\<open>http.Transport\<close> (service-b): the call is
  logged with the URL it is given and no trace header, and its result is the
  environment's.
\<close>

definition client_Get :: "world \<Rightarrow> string \<Rightarrow> effects \<Rightarrow> (string + reply) \<times> effects" where
  "client_Get wd url st =
     (let out = \<lparr>out_url = url, out_header = Map.empty\<rparr>
      in (transport wd out, st\<lparr>calls := calls st @ [out]\<rparr>))"

text \<open>
  \<^verbatim>\<open>client.Get(url)\<close> on a client whose transport is \<^verbatim>\<open>otelhttp.NewTransport(...)\<close>
  (service-a). \<^verbatim>\<open>Get\<close> builds the request from the URL with \<^verbatim>\<open>context.Background()\<close> and
  no headers of the caller's; the transport starts its client span from the request's
  context and injects that span's context into the outbound headers. The handler calls
  it with a URL that ends in 8 digits, from which the request can always be built.
\<close>

definition otel_client_Get :: "world \<Rightarrow> string \<Rightarrow> effects \<Rightarrow> (string + reply) \<times> effects" where
  "otel_client_Get wd url st =
     (let (sc, st1) = new_span wd None st;
          out = \<lparr>out_url = url, out_header = Inject (Some sc) Map.empty\<rparr>
      in (transport wd out, st1\<lparr>calls := calls st1 @ [out]\<rparr>))"

section \<open>Requests\<close>

text \<open>
  An inbound \<^verbatim>\<open>*http.Request\<close>: method, headers, body, the parsed query string
  (\<^verbatim>\<open>r.URL.Query().Get(k)\<close> is the first value of \<open>k\<close>, or the empty string) and the span
  context carried by \<^verbatim>\<open>r.Context()\<close>.
\<close>

record request =
  req_method :: string
  req_header :: header
  req_body :: string
  req_query :: "(string \<times> string) list"
  req_context :: go_context

definition Query_Get :: "request \<Rightarrow> string \<Rightarrow> string" where
  "Query_Get r k = (case map_of (req_query r) k of None \<Rightarrow> [] | Some v \<Rightarrow> v)"

text \<open>
  The result of serving a request: the response writer, the request's header map as the
  handler leaves it (the handlers inject into it), and the process's effects.
\<close>

record outcome =
  writer :: response_writer
  inbound_header :: header
  after :: effects


section \<open>The resolution service (service-b)\<close>

subsection \<open>\<^verbatim>\<open>url.QueryEscape\<close>\<close>

definition shouldEscape :: "char \<Rightarrow> bool" where
  "shouldEscape c =
     (c \<notin> set ''abcdefghijklmnopqrstuvwxyzABCDEFGHIJKLMNOPQRSTUVWXYZ0123456789'' \<and> c \<notin> set ''-_.~'')"

definition upperhex :: string where
  "upperhex = ''0123456789ABCDEF''"

fun QueryEscape :: "string \<Rightarrow> string" where
  "QueryEscape [] = []"
| "QueryEscape (c # cs) =
     (if c = CHR '' '' then ''+''
      else if shouldEscape c
           then [CHR ''%'', upperhex ! (of_char c div 16), upperhex ! (of_char c mod 16)]
           else [c]) @ QueryEscape cs"

subsection \<open>The traced service (\<^verbatim>\<open>handler\<close> methods)\<close>

text \<open>
  A Go result pair \<^verbatim>\<open>(value, err)\<close> is a pair whose second component is the error text,
  if any. A deferred \<^verbatim>\<open>span.End()\<close> runs when the function returns, on every path: it is
  applied to the effects of the rest of the body.
\<close>

definition h_getLocation ::
  "world \<Rightarrow> go_context \<Rightarrow> string \<Rightarrow> effects \<Rightarrow> (string \<times> string option) \<times> effects" where
  "h_getLocation wd ctx zipCode st =
     (let ((_, span), st1) = tracer_Start wd ctx ''Chamada externa: getLocation'' st;
          url = ''https://viacep.com.br/ws/'' @ zipCode @ ''/json/'';
          (resp, st2) = client_Get wd url st1;
          result =
            (case resp of
               Inl err \<Rightarrow> ([], Some err)
             | Inr rp \<Rightarrow>
                 (case decode_LocationInfo wd (reply_body rp) of
                    Inl err \<Rightarrow> ([], Some err)
                  | Inr location \<Rightarrow> (Localidade location, None)))
      in (result, span_End span st2))"

definition weather_url :: "string \<Rightarrow> string" where
  "weather_url city =
     ''https://api.weatherapi.com/v1/current.json?key=6c0e6aefacc44ed0a69130616242705&q=''
       @ QueryEscape city"

definition h_getWeather ::
  "world \<Rightarrow> go_context \<Rightarrow> string \<Rightarrow> effects \<Rightarrow> (WeatherInfo \<times> string option) \<times> effects" where
  "h_getWeather wd ctx city st =
     (let ((_, span), st1) = tracer_Start wd ctx ''Chamada externa: getWeather'' st;
          completeUrl = weather_url city;
          (resp, st2) = client_Get wd completeUrl st1;
          result =
            (case resp of
               Inl err \<Rightarrow> (\<lparr>Temperature = Finite 0\<rparr>, Some err)
             | Inr rp \<Rightarrow>
                 (case decode_WeatherInfo wd (reply_body rp) of
                    Inl err \<Rightarrow> (\<lparr>Temperature = Finite 0\<rparr>, Some err)
                  | Inr weather \<Rightarrow> (weather, None)))
      in (result, span_End span st2))"

text \<open>\<^verbatim>\<open>json.NewEncoder(w).Encode(v)\<close>: the error is dropped; on failure nothing is written.\<close>

definition Encode :: "string option \<Rightarrow> response_writer \<Rightarrow> response_writer" where
  "Encode bytes w = (case bytes of None \<Rightarrow> w | Some b \<Rightarrow> Write b w)"

definition h_temperatureHandler :: "world \<Rightarrow> request \<Rightarrow> response_writer \<Rightarrow> effects \<Rightarrow> outcome" where
  "h_temperatureHandler wd r w st =
     (let ctx0 = Extract (req_context r) (req_header r);
          ((ctx, spanInicial), st1) = tracer_Start wd ctx0 (''SPAN_INICIAL '' @ REQUEST_NAME_OTEL wd) st;
          st2 = span_End spanInicial st1;
          hdr = Inject ctx (req_header r);
          zipCode = Query_Get r ''zipcode''
      in if length zipCode \<noteq> 8
         then \<lparr>writer = http_Error w ''invalid zipcode'' 412, inbound_header = hdr, after = st2\<rparr>
         else
           let ((city, err), st3) = h_getLocation wd ctx zipCode st2
           in if err \<noteq> None \<or> city = []
              then \<lparr>writer = http_Error w ''can not find zipcode'' 404, inbound_header = hdr,
                     after = st3\<rparr>
              else
                let ((weather, err2), st4) = h_getWeather wd ctx city st3
                in if err2 \<noteq> None
                   then \<lparr>writer = http_Error w ''failed to get weather info'' 500,
                          inbound_header = hdr, after = st4\<rparr>
                   else
                     let tempC = Temperature weather;
                         tempF = f64_add (f64_mul tempC (f64_const (18 / 10))) (f64_const 32);
                         tempK = f64_add tempC (f64_const 273);
                         response2 = \<lparr>City = city, TempC = tempC, TempF = tempF, TempK = tempK\<rparr>;
                         w1 = Header_Set ''Content-Type'' ''application/json'' w
                     in \<lparr>writer = Encode (encode_LocationInfoAndCity wd response2) w1,
                         inbound_header = hdr, after = st4\<rparr>)"

subsection \<open>The untraced service (\<^verbatim>\<open>service-b/main.go\<close>)\<close>

text \<open>The same pipeline without spans; the diagnostic prints to standard output are left out.\<close>

definition getLocation :: "world \<Rightarrow> string \<Rightarrow> effects \<Rightarrow> (string \<times> string option) \<times> effects" where
  "getLocation wd zipCode st =
     (let url = ''https://viacep.com.br/ws/'' @ zipCode @ ''/json/'';
          (resp, st1) = client_Get wd url st
      in (case resp of
            Inl err \<Rightarrow> (([], Some err), st1)
          | Inr rp \<Rightarrow>
              (case decode_LocationInfo wd (reply_body rp) of
                 Inl err \<Rightarrow> (([], Some err), st1)
               | Inr location \<Rightarrow> ((Localidade location, None), st1))))"

definition getWeather :: "world \<Rightarrow> string \<Rightarrow> effects \<Rightarrow> (WeatherInfo \<times> string option) \<times> effects" where
  "getWeather wd city st =
     (let completeUrl = weather_url city;
          (resp, st1) = client_Get wd completeUrl st
      in (case resp of
            Inl err \<Rightarrow> ((\<lparr>Temperature = Finite 0\<rparr>, Some err), st1)
          | Inr rp \<Rightarrow>
              (case decode_WeatherInfo wd (reply_body rp) of
                 Inl err \<Rightarrow> ((\<lparr>Temperature = Finite 0\<rparr>, Some err), st1)
               | Inr weather \<Rightarrow> ((weather, None), st1))))"

definition temperatureHandler :: "world \<Rightarrow> request \<Rightarrow> response_writer \<Rightarrow> effects \<Rightarrow> outcome" where
  "temperatureHandler wd r w st =
     (let zipCode = Query_Get r ''zipcode''
      in if length zipCode \<noteq> 8
         then \<lparr>writer = http_Error w ''invalid zipcode'' 422, inbound_header = req_header r,
                after = st\<rparr>
         else
           let ((city, err), st1) = getLocation wd zipCode st
           in if err \<noteq> None \<or> city = []
              then \<lparr>writer = http_Error w ''can not find zipcode'' 404,
                     inbound_header = req_header r, after = st1\<rparr>
              else
                let ((weather, err2), st2) = getWeather wd city st1
                in if err2 \<noteq> None
                   then \<lparr>writer = http_Error w ''failed to get weather info'' 500,
                          inbound_header = req_header r, after = st2\<rparr>
                   else
                     let tempC = Temperature weather;
                         tempF = f64_add (f64_mul tempC (f64_const (18 / 10))) (f64_const 32);
                         tempK = f64_add tempC (f64_const 273);
                         response2 = \<lparr>City = city, TempC = tempC, TempF = tempF, TempK = tempK\<rparr>;
                         w1 = Header_Set ''Content-Type'' ''application/json'' w
                     in \<lparr>writer = Encode (encode_LocationInfoAndCity wd response2) w1,
                         inbound_header = req_header r, after = st2\<rparr>)"

section \<open>The entry service (service-a)\<close>

subsection \<open>Decoding the request body\<close>

text \<open>
  \<^verbatim>\<open>var req ZipCodeRequest; json.NewDecoder(r.Body).Decode(&req)\<close>: the decoder reads the
  first JSON value of the body and stores it into the struct, whose only field is
  \<^verbatim>\<open>CEP string `json:"cep"`\<close>. A member of an object is stored into the field when its name
  is \<^verbatim>\<open>cep\<close> up to the case of the letters; a string is assigned, \<^verbatim>\<open>null\<close> leaves the field
  as it is, any other value leaves it as it is and makes \<^verbatim>\<open>Decode\<close> return a type error
  (the first one met), after the remaining members have been stored. Members of other
  names are skipped. The value \<^verbatim>\<open>null\<close> stores nothing; a value that is neither an object
  nor \<^verbatim>\<open>null\<close> is a type error.
\<close>

definition upper_ascii :: "char \<Rightarrow> char" where
  "upper_ascii c =
     (case map_of (zip ''abcdefghijklmnopqrstuvwxyz'' ''ABCDEFGHIJKLMNOPQRSTUVWXYZ'') c of
        None \<Rightarrow> c
      | Some u \<Rightarrow> u)"

definition names_field :: "string \<Rightarrow> string \<Rightarrow> bool" where
  "names_field key name = (map upper_ascii key = map upper_ascii name)"

fun json_kind :: "json \<Rightarrow> string" where
  "json_kind JNull = ''null''"
| "json_kind (JBool b) = ''bool''"
| "json_kind (JNumber n) = ''number''"
| "json_kind (JString s) = ''string''"
| "json_kind (JArray vs) = ''array''"
| "json_kind (JObject ms) = ''object''"

definition field_type_error :: "json \<Rightarrow> string" where
  "field_type_error v =
     ''json: cannot unmarshal '' @ json_kind v
       @ '' into Go struct field ZipCodeRequest.cep of type string''"

definition value_type_error :: "json \<Rightarrow> string" where
  "value_type_error v =
     ''json: cannot unmarshal '' @ json_kind v @ '' into Go value of type main.ZipCodeRequest''"

fun object_ZipCodeRequest ::
  "(string \<times> json) list \<Rightarrow> ZipCodeRequest \<Rightarrow> string option \<Rightarrow> ZipCodeRequest \<times> string option" where
  "object_ZipCodeRequest [] req err = (req, err)"
| "object_ZipCodeRequest ((key, v) # ms) req err =
     (if names_field key ''cep''
      then (case v of
              JString s \<Rightarrow> object_ZipCodeRequest ms (req\<lparr>CEP := s\<rparr>) err
            | JNull \<Rightarrow> object_ZipCodeRequest ms req err
            | _ \<Rightarrow>
                object_ZipCodeRequest ms req
                  (case err of None \<Rightarrow> Some (field_type_error v) | Some e \<Rightarrow> Some e))
      else object_ZipCodeRequest ms req err)"

definition unmarshal_ZipCodeRequest :: "json \<Rightarrow> ZipCodeRequest \<Rightarrow> string + ZipCodeRequest" where
  "unmarshal_ZipCodeRequest v req =
     (case v of
        JNull \<Rightarrow> Inr req
      | JObject ms \<Rightarrow>
          (case object_ZipCodeRequest ms req None of
             (req', None) \<Rightarrow> Inr req'
           | (req', Some e) \<Rightarrow> Inl e)
      | _ \<Rightarrow> Inl (value_type_error v))"

definition decode_ZipCodeRequest :: "world \<Rightarrow> string \<Rightarrow> string + ZipCodeRequest" where
  "decode_ZipCodeRequest wd body =
     (case scan_json wd body of
        Inl err \<Rightarrow> Inl err
      | Inr v \<Rightarrow> unmarshal_ZipCodeRequest v \<lparr>CEP = []\<rparr>)"

subsection \<open>The handler\<close>

definition h_zipCodeHandler :: "world \<Rightarrow> request \<Rightarrow> response_writer \<Rightarrow> effects \<Rightarrow> outcome" where
  "h_zipCodeHandler wd r w st =
     (let ctx0 = Extract (req_context r) (req_header r);
          ((ctx, spanInicial), st1) = tracer_Start wd ctx0 (''SPAN_INICIAL '' @ REQUEST_NAME_OTEL wd) st;
          st2 = span_End spanInicial st1;
          hdr = Inject ctx (req_header r)
      in if req_method r \<noteq> ''POST''
         then \<lparr>writer = http_Error w ''Only POST method is allowed'' 405, inbound_header = hdr,
                after = st2\<rparr>
         else
           (case decode_ZipCodeRequest wd (req_body r) of
              Inl err \<Rightarrow> \<lparr>writer = http_Error w err 400, inbound_header = hdr, after = st2\<rparr>
            | Inr req \<Rightarrow>
                if \<not> isValidZipCode (CEP req)
                then \<lparr>writer = http_Error w ''invalid zipcode'' 412, inbound_header = hdr,
                       after = st2\<rparr>
                else
                  let ((_, span), st3) =
                        tracer_Start wd ctx ''Chamada externa: getTemperatureByZipCode'' st2;
                      url = ''http://service-b:8081/zipcode?zipcode='' @ CEP req;
                      (resp, st4) = otel_client_Get wd url st3;
                      w1 =
                        (case resp of
                           Inl err \<Rightarrow> http_Error w err 500
                         | Inr rp \<Rightarrow>
                             if reply_status rp = 404
                             then http_Error w ''can not find zipcode'' 404
                             else
                               (case decode_ZipCodeResponse wd (reply_body rp) of
                                  Inl err \<Rightarrow> http_Error w err 500
                                | Inr zipCodeResponse \<Rightarrow>
                                    Encode (encode_ZipCodeResponse wd zipCodeResponse)
                                      (Header_Set ''Content-Type'' ''application/json''
                                        (WriteHeader (reply_status rp) w))))
                  in \<lparr>writer = w1, inbound_header = hdr, after = span_End span st4\<rparr>))"

section \<open>The \<^verbatim>\<open>otelhttp.NewHandler\<close> wrapper\<close>

text \<open>
  Both services register their handler behind \<^verbatim>\<open>otelhttp.NewHandler\<close>: it extracts the
  trace context from the inbound headers, starts the server span and passes the request
  on with that span in its context.
\<close>

definition otelhttp_NewHandler ::
  "(world \<Rightarrow> request \<Rightarrow> response_writer \<Rightarrow> effects \<Rightarrow> outcome) \<Rightarrow>
   world \<Rightarrow> request \<Rightarrow> response_writer \<Rightarrow> effects \<Rightarrow> outcome" where
  "otelhttp_NewHandler handler wd r w st =
     (let ctx = Extract (req_context r) (req_header r);
          (sc, st1) = new_span wd ctx st
      in handler wd (r\<lparr>req_context := Some sc\<rparr>) w st1)"


section \<open>Properties of event logs\<close>

text \<open>
  A log is closed when every span started in it is ended exactly once, later in the log
  and not before its start.
\<close>

fun closed_from :: "span_event list \<Rightarrow> span_event list \<Rightarrow> bool" where
  "closed_from seen [] = True"
| "closed_from seen (SpanStart h name sc # es) =
     (SpanEnd h \<notin> set seen \<and> count_list es (SpanEnd h) = 1
      \<and> closed_from (seen @ [SpanStart h name sc]) es)"
| "closed_from seen (SpanEnd h # es) = closed_from (seen @ [SpanEnd h]) es"

definition spans_closed :: "span_event list \<Rightarrow> bool" where
  "spans_closed es = closed_from [] es"

text \<open>The handles of the spans started in a log, and the trace ids they carry.\<close>

fun started :: "span_event list \<Rightarrow> nat list" where
  "started [] = []"
| "started (SpanStart h name sc # es) = h # started es"
| "started (SpanEnd h # es) = started es"

fun span_trace_ids :: "span_event list \<Rightarrow> string list" where
  "span_trace_ids [] = []"
| "span_trace_ids (SpanStart h name sc # es) = trace_id sc # span_trace_ids es"
| "span_trace_ids (SpanEnd h # es) = span_trace_ids es"

section \<open>The scenario of the specification\<close>

text \<open>
  The happy path of the specification as a concrete environment: the postal code
  \<^verbatim>\<open>01310900\<close>, the locality provider answering with the city of the specification's
  example (Sao Paulo, spelt with its tilde as two UTF-8 bytes), the weather provider
  answering 25 degrees. The two processes draw identifiers from different generators.
  The tables of the JSON functions hold the bodies of the scenario; every other body is
  answered with a decoding error, every other value with an encoding failure.
\<close>

definition start :: effects where
  "start = \<lparr>ids_drawn = 0, events = [], calls = []\<rparr>"

definition scenario_id :: "char \<Rightarrow> nat \<Rightarrow> nat \<Rightarrow> string" where
  "scenario_id fill width n = replicate (width - 1) fill @ [''0123456789abcdef'' ! (n mod 16)]"

definition sao_paulo :: string where
  "sao_paulo = ''S'' @ [CHR 0xC3, CHR 0xA3] @ ''o Paulo''"

definition viacep_body :: string where
  "viacep_body = ''{\"localidade\":\"'' @ sao_paulo @ ''\"}''"

definition weather_body :: string where
  "weather_body = ''{\"current\":{\"temp_c\":25}}''"

definition composed_body :: string where
  "composed_body =
     ''{\"city\":\"'' @ sao_paulo @ ''\",\"temp_C\":25,\"temp_F\":77,\"temp_K\":298}\<newline>''"

definition syntax_error :: string where
  "syntax_error = ''invalid character 'i' looking for beginning of value''"

definition world_b :: world where
  "world_b =
     \<lparr>trace_ids = scenario_id (CHR ''b'') 32,
      span_ids = scenario_id (CHR ''b'') 16,
      REQUEST_NAME_OTEL = ''service-b-request'',
      transport =
        (\<lambda>out. if out_url out = ''https://viacep.com.br/ws/01310900/json/''
               then Inr \<lparr>reply_status = 200, reply_body = viacep_body\<rparr>
               else if out_url out = weather_url sao_paulo
               then Inr \<lparr>reply_status = 200, reply_body = weather_body\<rparr>
               else Inl ''dial tcp: i/o timeout''),
      scan_json = (\<lambda>b. Inl syntax_error),
      decode_ZipCodeResponse = (\<lambda>b. Inl syntax_error),
      decode_LocationInfo =
        (\<lambda>b. if b = viacep_body then Inr \<lparr>Localidade = sao_paulo\<rparr> else Inl syntax_error),
      decode_WeatherInfo =
        (\<lambda>b. if b = weather_body then Inr \<lparr>Temperature = Finite 25\<rparr> else Inl syntax_error),
      encode_ZipCodeResponse = (\<lambda>v. None),
      encode_LocationInfoAndCity =
        (\<lambda>v. if v = \<lparr>City = sao_paulo, TempC = Finite 25, TempF = Finite 77, TempK = Finite 298\<rparr>
              then Some composed_body else None)\<rparr>"

text \<open>
  The hop between the services: the request service-b receives for an outbound call of
  service-a carries the call's headers and the query string of its URL
  (\<^verbatim>\<open>http://service-b:8081/zipcode?zipcode=\<close> is 38 bytes long), and the reply is what
  service-b's registered handler writes.
\<close>

definition deliver :: "outbound \<Rightarrow> request" where
  "deliver out =
     \<lparr>req_method = ''GET'', req_header = out_header out, req_body = [],
      req_query = [(''zipcode'', drop 38 (out_url out))], req_context = None\<rparr>"

definition service_b :: "world \<Rightarrow> outbound \<Rightarrow> outcome" where
  "service_b wd out = otelhttp_NewHandler h_temperatureHandler wd (deliver out) new_writer start"

definition service_b_reply :: "world \<Rightarrow> outbound \<Rightarrow> string + reply" where
  "service_b_reply wd out =
     (let res = service_b wd out
      in Inr \<lparr>reply_status = status_code (writer res), reply_body = written_body (writer res)\<rparr>)"

definition world_a :: world where
  "world_a =
     \<lparr>trace_ids = scenario_id (CHR ''a'') 32,
      span_ids = scenario_id (CHR ''a'') 16,
      REQUEST_NAME_OTEL = ''service-a-request'',
      transport = service_b_reply world_b,
      scan_json =
        (\<lambda>b. if b = ''{\"cep\":\"01310900\"}'' then Inr (JObject [(''cep'', JString ''01310900'')])
             else if b = ''{\"cep\":\"123\"}'' then Inr (JObject [(''cep'', JString ''123'')])
             else if b = ''{}'' then Inr (JObject [])
             else if b = ''{\"zip\":\"01310900\"}'' then Inr (JObject [(''zip'', JString ''01310900'')])
             else if b = ''[]'' then Inr (JArray [])
             else Inl syntax_error),
      decode_ZipCodeResponse =
        (\<lambda>b. if b = composed_body
             then Inr \<lparr>zr_City = sao_paulo, zr_TempC = Finite 25, zr_TempF = Finite 77,
                       zr_TempK = Finite 298\<rparr>
             else Inl syntax_error),
      decode_LocationInfo = (\<lambda>b. Inl syntax_error),
      decode_WeatherInfo = (\<lambda>b. Inl syntax_error),
      encode_ZipCodeResponse =
        (\<lambda>v. if v = \<lparr>zr_City = sao_paulo, zr_TempC = Finite 25, zr_TempF = Finite 77,
                      zr_TempK = Finite 298\<rparr>
              then Some composed_body else None),
      encode_LocationInfoAndCity = (\<lambda>v. None)\<rparr>"

text \<open>A caller's request to service-a, without a trace context and with one.\<close>

definition post_zipcode :: "string \<Rightarrow> request" where
  "post_zipcode body =
     \<lparr>req_method = ''POST'', req_header = Map.empty, req_body = body, req_query = [],
      req_context = None\<rparr>"

definition caller_traceparent :: string where
  "caller_traceparent = ''00-0af7651916cd43dd8448eb211c80319c-b7ad6b7169203331-01''"

definition traced_post_zipcode :: "string \<Rightarrow> request" where
  "traced_post_zipcode body =
     (post_zipcode body)\<lparr>req_header := [''Traceparent'' \<mapsto> caller_traceparent]\<rparr>"

definition service_a :: "world \<Rightarrow> request \<Rightarrow> outcome" where
  "service_a wd r = otelhttp_NewHandler h_zipCodeHandler wd r new_writer start"

text \<open>A direct request to service-b.\<close>

definition get_zipcode :: "string \<Rightarrow> request" where
  "get_zipcode zipCode =
     \<lparr>req_method = ''GET'', req_header = Map.empty, req_body = [],
      req_query = [(''zipcode'', zipCode)], req_context = None\<rparr>"

text \<open>
  The same providers with the locality provider unreachable, with the weather provider
  unreachable (and service-a in front of that), and with an unknown code.
\<close>

definition world_b_outage :: world where
  "world_b_outage = world_b\<lparr>transport := (\<lambda>out. Inl ''dial tcp: connection refused'')\<rparr>"

definition world_b_weather_down :: world where
  "world_b_weather_down =
     world_b\<lparr>transport :=
               (\<lambda>out. if out_url out = ''https://viacep.com.br/ws/01310900/json/''
                      then Inr \<lparr>reply_status = 200, reply_body = viacep_body\<rparr>
                      else Inl ''dial tcp: i/o timeout'')\<rparr>"

definition world_a_weather_down :: world where
  "world_a_weather_down =
     world_a\<lparr>transport := service_b_reply world_b_weather_down,
             decode_ZipCodeResponse :=
               (\<lambda>b. Inl ''invalid character 'i' in literal false (expecting 'l')'')\<rparr>"

definition world_b_unknown :: world where
  "world_b_unknown =
     world_b\<lparr>transport := (\<lambda>out. Inr \<lparr>reply_status = 200, reply_body = ''{\"localidade\":\"\"}''\<rparr>),
             decode_LocationInfo := (\<lambda>b. Inr \<lparr>Localidade = []\<rparr>)\<rparr>"


section \<open>Evaluation rules and basic facts\<close>

declare spacing_up.simps [simp del] spacing_down.simps [simp del]

lemma floor_rat_numeral: "\<lfloor>(numeral a / numeral b :: rat)\<rfloor> = numeral a div numeral b"
  using floor_divide_of_int_eq [of "numeral a" "numeral b", where ?'a = rat] by simp

lemmas f64_eval = f64_const_def f64_round_def spacing_def spacing_up.simps spacing_down.simps
  round_half_even_def Let_def floor_rat_numeral

lemmas writer_defs = status_code_def http_Error_def Write_def WriteHeader_def Header_Set_def
  new_writer_def Encode_def

lemmas tracing_defs = tracer_Start_def new_span_def span_End_def

lemmas resolver_defs = h_getLocation_def h_getWeather_def client_Get_def tracing_defs

lemma status_http_Error: "status_code (http_Error new_writer msg code) = code"
  by (simp add: writer_defs)

lemma body_http_Error: "written_body (http_Error new_writer msg code) = msg @ ''\<newline>''"
  by (simp add: writer_defs)

lemma status_Encode: "status_code (Encode b (Header_Set k v new_writer)) = 200"
  by (simp add: writer_defs split: option.splits)

section \<open>The postal-code validator\<close>

lemma compile_zip_pattern: "compile zip_pattern = Inr [BeginText, Repeat 8 DigitClass, EndText]"
  by (simp add: compile_def zip_pattern_def backslash_def parse_repeat_def is_count_def
      is_digit_def is_meta_def is_punct_def is_alnum_def)

lemma iterate_digits:
  "iterate n (match_one DigitClass) (i, s) =
     (if n \<le> length s \<and> (\<forall>c \<in> set (take n s). is_digit c) then Some (i + n, drop n s) else None)"
proof (induction n arbitrary: i s)
  case 0
  show ?case by simp
next
  case (Suc n)
  show ?case
  proof (cases s)
    case Nil
    then show ?thesis by simp
  next
    case (Cons c cs)
    then show ?thesis using Suc.IH [of "Suc i" cs] by auto
  qed
qed

lemma search_begin_later: "0 < i \<Longrightarrow> \<not> search (BeginText # rs) i s"
  by (induction s arbitrary: i) auto

lemma match_eight_digits:
  "match_seq [BeginText, Repeat 8 DigitClass, EndText] (0, s) \<noteq> None
     \<longleftrightarrow> length s = 8 \<and> (\<forall>c \<in> set s. is_digit c)"
proof -
  have r: "match_one (Repeat 8 DigitClass) (0, s) =
      (if 8 \<le> length s \<and> (\<forall>c \<in> set (take 8 s). is_digit c) then Some (8, drop 8 s) else None)"
    by (simp only: match_one.simps(5) iterate_digits) simp
  show ?thesis
  proof (cases "8 \<le> length s \<and> (\<forall>c \<in> set (take 8 s). is_digit c)")
    case True
    have "match_one (Repeat 8 DigitClass) (0, s) = Some (8, drop 8 s)"
      unfolding r by (rule if_P [OF True])
    then have "match_seq [BeginText, Repeat 8 DigitClass, EndText] (0, s) \<noteq> None
        \<longleftrightarrow> drop 8 s = []"
      by (simp del: match_one.simps(5))
    with True show ?thesis by (cases "length s = 8") auto
  next
    case False
    have "match_one (Repeat 8 DigitClass) (0, s) = None"
      unfolding r by (rule if_not_P [OF False])
    then have "match_seq [BeginText, Repeat 8 DigitClass, EndText] (0, s) = None"
      by (simp del: match_one.simps(5))
    with False show ?thesis by (cases "length s = 8") auto
  qed
qed

lemma search_zip:
  "search [BeginText, Repeat 8 DigitClass, EndText] 0 s
     \<longleftrightarrow> length s = 8 \<and> (\<forall>c \<in> set s. is_digit c)"
proof -
  have "search [BeginText, Repeat 8 DigitClass, EndText] 0 s
      \<longleftrightarrow> match_seq [BeginText, Repeat 8 DigitClass, EndText] (0, s) \<noteq> None"
    by (cases s) (simp_all add: search_begin_later del: match_seq.simps)
  then show ?thesis by (simp only: match_eight_digits)
qed

lemma isValidZipCode_iff:
  "isValidZipCode s \<longleftrightarrow> length s = 8 \<and> (\<forall>c \<in> set s. is_digit c)"
  by (simp add: isValidZipCode_def MatchString_def compile_zip_pattern search_zip
      del: search.simps)

text \<open>
  C9. The pattern of \<open>isValidZipCode\<close> compiles, so \<^verbatim>\<open>regexp.MatchString\<close> returns no
  error for any input string, and the boolean that \<open>isValidZipCode\<close> returns is the
  result of matching the compiled expression against the string: dropping the error
  loses nothing.
\<close>

theorem zip_pattern_always_compiles:
  "compile zip_pattern = Inr [BeginText, Repeat 8 DigitClass, EndText]
   \<and> snd (MatchString zip_pattern s) = None
   \<and> isValidZipCode s = search [BeginText, Repeat 8 DigitClass, EndText] 0 s"
  by (simp add: isValidZipCode_def MatchString_def compile_zip_pattern del: search.simps)


section \<open>Exact results of the \<^verbatim>\<open>float64\<close> operations\<close>

text \<open>
  A rational within \<open>2\<^sup>-\<^sup>5\<^sup>4\<close> (relative) of an integer below \<open>2\<^sup>5\<^sup>3\<close> rounds to that integer;
  in particular integers below \<open>2\<^sup>5\<^sup>3\<close> are representable. From this, \<^verbatim>\<open>c + 273\<close> is exact
  for an integer reading, and \<^verbatim>\<open>c*1.8 + 32\<close> is exact for a reading that is a multiple of 5.
\<close>

lemma round_half_even_near:
  fixes t :: rat
  assumes "\<bar>t\<bar> < 1 / 2"
  shows "round_half_even (of_int M + t) = M"
proof (cases "0 \<le> t")
  case True
  with assms have "\<lfloor>t\<rfloor> = 0" by (intro floor_unique) auto
  then have f: "\<lfloor>of_int M + t\<rfloor> = M" by simp
  show ?thesis using assms True by (simp add: round_half_even_def f Let_def)
next
  case False
  with assms have "\<lfloor>t\<rfloor> = - 1" by (intro floor_unique) auto
  then have f: "\<lfloor>of_int M + t\<rfloor> = M - 1" by simp
  show ?thesis using assms False by (simp add: round_half_even_def f Let_def)
qed

lemma spacing_down_form:
  fixes x u :: rat
  assumes "x < 2 ^ 53 * u" and "u = 1 / 2 ^ k"
  shows "\<exists>j. spacing_down x u = 1 / 2 ^ j \<and> x < 2 ^ 53 * spacing_down x u"
  using assms
proof (induction x u arbitrary: k rule: spacing_down.induct)
  case (1 x u)
  show ?case
  proof (cases "x < 2 ^ 52 * u \<and> 1 / 2 ^ 1074 < u")
    case True
    have e: "spacing_down x u = spacing_down x (u / 2)"
      by (subst spacing_down.simps) (rule if_P [OF True])
    from True have a: "x < 2 ^ 53 * (u / 2)" by simp
    from "1.prems"(2) have b: "u / 2 = 1 / 2 ^ Suc k" by simp
    from "1.IH" [OF True a b] show ?thesis unfolding e .
  next
    case False
    have e: "spacing_down x u = u"
      by (subst spacing_down.simps) (rule if_not_P [OF False])
    from "1.prems" show ?thesis unfolding e by blast
  qed
qed

lemma f64_round_near_int:
  fixes x e :: rat
  assumes x: "x = of_int m + e" and nz: "x \<noteq> 0" and small: "\<bar>x\<bar> < 2 ^ 53"
    and err: "\<bar>e\<bar> * 2 ^ 54 < \<bar>x\<bar>"
  shows "f64_round x = Finite (of_int m)"
proof -
  from small have s: "spacing \<bar>x\<bar> = spacing_down \<bar>x\<bar> 1" by (simp add: spacing_def)
  from small have "\<bar>x\<bar> < 2 ^ 53 * (1::rat)" by simp
  moreover have "(1::rat) = 1 / 2 ^ 0" by simp
  ultimately obtain j where j: "spacing_down \<bar>x\<bar> 1 = 1 / 2 ^ j"
    and b: "\<bar>x\<bar> < 2 ^ 53 * spacing_down \<bar>x\<bar> 1"
    using spacing_down_form [of "\<bar>x\<bar>" 1 0] by blast
  define u :: rat where "u = 1 / 2 ^ j"
  have u: "spacing \<bar>x\<bar> = u" and upos: "0 < u" by (simp_all add: s j u_def)
  from b have b': "\<bar>x\<bar> * 2 ^ j < 2 ^ 53" by (simp add: j field_simps)
  define t :: rat where "t = e * 2 ^ j"
  have "\<bar>t\<bar> * 2 ^ 54 = (\<bar>e\<bar> * 2 ^ 54) * 2 ^ j" by (simp add: t_def abs_mult)
  also have "\<dots> < \<bar>x\<bar> * 2 ^ j" using err by simp
  also have "\<dots> < 2 ^ 53" by (rule b')
  finally have t: "\<bar>t\<bar> < 1 / 2" by simp
  have q: "x / u = of_int (m * 2 ^ j) + t" by (simp add: x u_def t_def algebra_simps)
  have r: "of_int (round_half_even (x / u)) * u = (of_int m :: rat)"
    unfolding q round_half_even_near [OF t] by (simp add: u_def)
  have "\<bar>(of_int m :: rat)\<bar> = \<bar>x - e\<bar>" by (simp add: x)
  also have "\<dots> \<le> \<bar>x\<bar> + \<bar>e\<bar>" by (rule abs_triangle_ineq4)
  also have "\<dots> < 2 ^ 53 + 2 ^ 53" using small err by (intro add_strict_mono) auto
  finally have m: "\<bar>(of_int m :: rat)\<bar> < 2 ^ 54" by simp
  have big: "(2::rat) ^ 54 \<le> 2 ^ 1024" by (rule power_increasing) simp_all
  from m big have "\<not> (2::rat) ^ 1024 \<le> of_int m" and "\<not> (of_int m :: rat) \<le> - (2 ^ 1024)"
    by linarith+
  then show ?thesis
    using nz by (simp only: f64_round_def u Let_def r if_False)
qed

lemma f64_round_int:
  assumes "\<bar>m\<bar> < 2 ^ 53"
  shows "f64_round (of_int m) = Finite (of_int m)"
proof (cases "m = 0")
  case True
  then show ?thesis by (simp add: f64_round_def)
next
  case False
  have "\<bar>(of_int m :: rat)\<bar> < of_int (2 ^ 53)"
    using assms unfolding of_int_abs [symmetric] by (simp only: of_int_less_iff)
  then have "\<bar>(of_int m :: rat)\<bar> < 2 ^ 53" by simp
  with False show ?thesis
    by (intro f64_round_near_int [where e = 0]) auto
qed

lemma f64_const_int:
  assumes "\<bar>m\<bar> < 2 ^ 53"
  shows "f64_const (of_int m) = Finite (of_int m)"
  unfolding f64_const_def by (rule f64_round_int [OF assms])

lemma f64_const_32: "f64_const 32 = Finite 32"
  using f64_const_int [of 32] by simp

lemma f64_const_273: "f64_const 273 = Finite 273"
  using f64_const_int [of 273] by simp

lemma f64_const_18_10: "f64_const (18 / 10) = Finite (8106479329266893 / 2 ^ 52)"
  by (simp add: f64_eval)

lemma kelvin_exact:
  assumes "\<bar>n\<bar> < 2 ^ 52"
  shows "f64_add (Finite (of_int n)) (f64_const 273) = Finite (of_int (n + 273))"
proof -
  from assms have "\<bar>n + 273\<bar> < 2 ^ 53" by simp
  from f64_round_int [OF this] show ?thesis
    by (simp add: f64_const_273)
qed

lemma fahrenheit_exact:
  assumes "\<bar>k\<bar> < 2 ^ 49"
  shows "f64_add (f64_mul (Finite (of_int (5 * k))) (f64_const (18 / 10))) (f64_const 32)
           = Finite (of_int (9 * k + 32))"
proof -
  have p: "f64_round (of_int (5 * k) * (8106479329266893 / 2 ^ 52)) = Finite (of_int (9 * k))"
  proof (cases "k = 0")
    case True
    then show ?thesis by (simp add: f64_round_def)
  next
    case False
    define e :: rat where "e = of_int k / 2 ^ 52"
    have x: "of_int (5 * k) * (8106479329266893 / 2 ^ 52) = of_int (9 * k) + e"
      by (simp add: e_def field_simps)
    have ak: "\<bar>(of_int k :: rat)\<bar> < 2 ^ 49"
    proof -
      have "\<bar>(of_int k :: rat)\<bar> < of_int (2 ^ 49)"
        using assms unfolding of_int_abs [symmetric] by (simp only: of_int_less_iff)
      then show ?thesis by simp
    qed
    have kpos: "0 < \<bar>(of_int k :: rat)\<bar>" using False by simp
    have ax: "\<bar>of_int (9 * k) + e\<bar> = \<bar>(of_int k :: rat)\<bar> * (9 + 1 / 2 ^ 52)"
    proof -
      have "of_int (9 * k) + e = (of_int k :: rat) * (9 + 1 / 2 ^ 52)"
        by (simp add: e_def field_simps)
      then show ?thesis by (simp only: abs_mult) simp
    qed
    have ae: "\<bar>e\<bar> = \<bar>(of_int k :: rat)\<bar> / 2 ^ 52" by (simp add: e_def)
    show ?thesis
      unfolding x
    proof (rule f64_round_near_int [OF refl])
      have "0 < \<bar>of_int (9 * k) + e\<bar>" unfolding ax using kpos by simp
      then show "of_int (9 * k) + e \<noteq> 0" by simp
      show "\<bar>of_int (9 * k) + e\<bar> < 2 ^ 53" unfolding ax using ak by simp
      show "\<bar>e\<bar> * 2 ^ 54 < \<bar>of_int (9 * k) + e\<bar>" unfolding ax ae using kpos by simp
    qed
  qed
  from assms have "\<bar>9 * k + 32\<bar> < 2 ^ 53" by simp
  from f64_round_int [OF this] show ?thesis
    by (simp only: f64_const_18_10 f64_const_32 f64_mul.simps f64_add.simps p) simp
qed

lemma fahrenheit_25:
  "f64_add (f64_mul (Finite 25) (f64_const (18 / 10))) (f64_const 32) = Finite 77"
  by (simp add: f64_eval)

lemma kelvin_25: "f64_add (Finite 25) (f64_const 273) = Finite 298"
  by (simp add: f64_eval)

lemmas entry_defs = h_zipCodeHandler_def otel_client_Get_def tracing_defs

section \<open>Validation in the two services\<close>

text \<open>
  C2, as the code has it. In service-a, \<open>isValidZipCode\<close> accepts a string exactly when
  it is 8 bytes long and every byte is an ASCII digit. The handlers of service-b do not
  call it: they check \<^verbatim>\<open>len(zipCode) != 8\<close> and nothing else, so the traced handler answers
  412 (and the untraced one 422) exactly when the query parameter is not 8 bytes long,
  whatever the bytes are.
\<close>

theorem zip_validation_shapes:
  "(isValidZipCode s \<longleftrightarrow> length s = 8 \<and> (\<forall>c \<in> set s. is_digit c))
   \<and> (status_code (writer (h_temperatureHandler wd r new_writer st)) = 412
        \<longleftrightarrow> length (Query_Get r ''zipcode'') \<noteq> 8)
   \<and> (status_code (writer (temperatureHandler wd r new_writer st)) = 422
        \<longleftrightarrow> length (Query_Get r ''zipcode'') \<noteq> 8)"
proof (intro conjI)
  show "isValidZipCode s \<longleftrightarrow> length s = 8 \<and> (\<forall>c \<in> set s. is_digit c)"
    by (rule isValidZipCode_iff)
  show "status_code (writer (h_temperatureHandler wd r new_writer st)) = 412
        \<longleftrightarrow> length (Query_Get r ''zipcode'') \<noteq> 8"
    by (simp add: h_temperatureHandler_def Let_def split_def status_http_Error status_Encode)
  show "status_code (writer (temperatureHandler wd r new_writer st)) = 422
        \<longleftrightarrow> length (Query_Get r ''zipcode'') \<noteq> 8"
    by (simp add: temperatureHandler_def Let_def split_def status_http_Error status_Encode)
qed

text \<open>
  C5, as the code has it. A request rejected by a service's own check is answered 412 at
  once and \<^verbatim>\<open>client.Get\<close> is not called: service-a rejects what \<open>isValidZipCode\<close> rejects,
  service-b rejects a query parameter that is not 8 bytes long. A query parameter of 8
  bytes, digits or not, is not rejected by service-b: the handler goes on to
  \<^verbatim>\<open>getLocation\<close>, which calls \<^verbatim>\<open>client.Get\<close> with the locality provider's URL for these
  bytes. (Whether a request then leaves the process is up to \<^verbatim>\<open>client.Get\<close>, which
  returns an error without sending anything when it cannot parse the URL.)
\<close>

theorem invalid_shape_makes_no_call:
  "(req_method r = ''POST'' \<and> decode_ZipCodeRequest wd (req_body r) = Inr req
      \<and> \<not> isValidZipCode (CEP req) \<longrightarrow>
        writer (h_zipCodeHandler wd r new_writer st) = http_Error new_writer ''invalid zipcode'' 412
      \<and> calls (after (h_zipCodeHandler wd r new_writer st)) = calls st)
   \<and> (length (Query_Get r' ''zipcode'') \<noteq> 8 \<longrightarrow>
        writer (h_temperatureHandler wd r' new_writer st) = http_Error new_writer ''invalid zipcode'' 412
      \<and> calls (after (h_temperatureHandler wd r' new_writer st)) = calls st)
   \<and> (length (Query_Get r' ''zipcode'') = 8 \<longrightarrow>
        (\<exists>cs. calls (after (h_temperatureHandler wd r' new_writer st)) =
                calls st
                  @ \<lparr>out_url = ''https://viacep.com.br/ws/'' @ Query_Get r' ''zipcode'' @ ''/json/'',
                     out_header = Map.empty\<rparr> # cs))"
proof (intro conjI impI)
  assume "req_method r = ''POST'' \<and> decode_ZipCodeRequest wd (req_body r) = Inr req
      \<and> \<not> isValidZipCode (CEP req)"
  then show "writer (h_zipCodeHandler wd r new_writer st) = http_Error new_writer ''invalid zipcode'' 412"
    and "calls (after (h_zipCodeHandler wd r new_writer st)) = calls st"
    by (simp_all add: entry_defs Let_def split_def)
next
  assume "length (Query_Get r' ''zipcode'') \<noteq> 8"
  then show "writer (h_temperatureHandler wd r' new_writer st) = http_Error new_writer ''invalid zipcode'' 412"
    and "calls (after (h_temperatureHandler wd r' new_writer st)) = calls st"
    by (simp_all add: h_temperatureHandler_def tracing_defs Let_def split_def)
next
  assume "length (Query_Get r' ''zipcode'') = 8"
  then show "\<exists>cs. calls (after (h_temperatureHandler wd r' new_writer st)) =
                calls st
                  @ \<lparr>out_url = ''https://viacep.com.br/ws/'' @ Query_Get r' ''zipcode'' @ ''/json/'',
                     out_header = Map.empty\<rparr> # cs"
    by (simp add: h_temperatureHandler_def resolver_defs Let_def split_def
        split: sum.split option.split)
qed

lemma object_without_cep:
  assumes "\<forall>(key, v) \<in> set ms. names_field key ''cep'' \<longrightarrow> v = JNull \<or> v = JString []"
  shows "object_ZipCodeRequest ms \<lparr>CEP = []\<rparr> err = (\<lparr>CEP = []\<rparr>, err)"
  using assms
proof (induction ms)
  case Nil
  show ?case by simp
next
  case (Cons m ms)
  obtain key v where m: "m = (key, v)" by (cases m)
  from Cons.prems have rest: "\<forall>(key, v) \<in> set ms. names_field key ''cep'' \<longrightarrow> v = JNull \<or> v = JString []"
    by simp
  from Cons.prems m have here: "names_field key ''cep'' \<longrightarrow> v = JNull \<or> v = JString []"
    by simp
  show ?case
    using here Cons.IH [OF rest] by (auto simp add: m)
qed

text \<open>
  C10, for JSON objects. The first JSON value of the body decides. When it is an object
  that has no member named \<^verbatim>\<open>cep\<close> (up to the case of the letters), or whose members of
  that name are all \<^verbatim>\<open>null\<close> or the empty string, \<^verbatim>\<open>Decode\<close> returns no error and leaves \<^verbatim>\<open>CEP\<close>
  empty, and the POST is answered 412 with the message \<^verbatim>\<open>invalid zipcode\<close>, not 400, and
  \<^verbatim>\<open>client.Get\<close> is not called. Valid JSON that is not an object is another matter: an
  array, a string, a number or a boolean is a type error of \<^verbatim>\<open>Decode\<close>, answered 400.
\<close>

theorem object_without_cep_is_412:
  assumes "req_method r = ''POST''"
    and "scan_json wd (req_body r) = Inr (JObject ms)"
    and "\<forall>(key, v) \<in> set ms. names_field key ''cep'' \<longrightarrow> v = JNull \<or> v = JString []"
  shows "decode_ZipCodeRequest wd (req_body r) = Inr \<lparr>CEP = []\<rparr>
       \<and> status_code (writer (h_zipCodeHandler wd r new_writer st)) = 412
       \<and> written_body (writer (h_zipCodeHandler wd r new_writer st)) = ''invalid zipcode\<newline>''
       \<and> calls (after (h_zipCodeHandler wd r new_writer st)) = calls st"
proof -
  have dec: "decode_ZipCodeRequest wd (req_body r) = Inr \<lparr>CEP = []\<rparr>"
    using assms(2) object_without_cep [OF assms(3)]
    by (simp add: decode_ZipCodeRequest_def unmarshal_ZipCodeRequest_def)
  show ?thesis
    using assms(1) dec
    by (simp add: entry_defs Let_def split_def isValidZipCode_iff status_http_Error
        body_http_Error)
qed

section \<open>The resolution pipeline\<close>

text \<open>
  C3, as the code has it. For a query parameter of 8 bytes, a failed locality call (a
  transport error or a body that does not decode) and a successful call with an empty
  locality get the same answer from the handler, 404 with \<^verbatim>\<open>can not find zipcode\<close>: the
  condition is \<^verbatim>\<open>err != nil || city == ""\<close>. The two outcomes differ only in what
  \<^verbatim>\<open>getLocation\<close> returns: a non-nil error in the first case, the empty string with a nil
  error in the second.
\<close>

theorem location_failure_or_empty_is_404:
  assumes len: "length (Query_Get r ''zipcode'') = 8"
    and loc: "loc = transport wd \<lparr>out_url = ''https://viacep.com.br/ws/'' @ Query_Get r ''zipcode'' @ ''/json/'',
                                 out_header = Map.empty\<rparr>"
  shows "(loc = Inl e \<longrightarrow>
            fst (h_getLocation wd ctx (Query_Get r ''zipcode'') st') = ([], Some e)
          \<and> writer (h_temperatureHandler wd r new_writer st) = http_Error new_writer ''can not find zipcode'' 404)
       \<and> (loc = Inr rp \<and> decode_LocationInfo wd (reply_body rp) = Inl e \<longrightarrow>
            fst (h_getLocation wd ctx (Query_Get r ''zipcode'') st') = ([], Some e)
          \<and> writer (h_temperatureHandler wd r new_writer st) = http_Error new_writer ''can not find zipcode'' 404)
       \<and> (loc = Inr rp \<and> decode_LocationInfo wd (reply_body rp) = Inr l \<and> Localidade l = [] \<longrightarrow>
            fst (h_getLocation wd ctx (Query_Get r ''zipcode'') st') = ([], None)
          \<and> writer (h_temperatureHandler wd r new_writer st) = http_Error new_writer ''can not find zipcode'' 404)"
  using len loc [symmetric]
  by (simp add: h_temperatureHandler_def resolver_defs Let_def split_def)

text \<open>
  C4. When both providers answer and the locality is not empty, the value that either
  handler of service-b encodes as its response has the locality as \<^verbatim>\<open>City\<close>, the reading
  \<open>c\<close> unchanged as \<^verbatim>\<open>TempC\<close>, \<^verbatim>\<open>c*1.8 + 32\<close> as \<^verbatim>\<open>TempF\<close> and \<^verbatim>\<open>c + 273\<close> as \<^verbatim>\<open>TempK\<close>, computed in
  \<^verbatim>\<open>float64\<close>; for \<open>c = 25\<close> these are 77 and 298. The rounding of \<^verbatim>\<open>float64\<close> does not show
  on the readings of the examples: for a reading \<open>5k\<close> the Fahrenheit field is exactly
  \<open>9k + 32\<close>, and for an integer reading \<open>n\<close> the Kelvin field is exactly \<open>n + 273\<close> (and never
  \<open>n + 273.15\<close>).
\<close>

theorem composed_response_formulas:
  assumes len: "length (Query_Get r ''zipcode'') = 8"
    and loc: "transport wd \<lparr>out_url = ''https://viacep.com.br/ws/'' @ Query_Get r ''zipcode'' @ ''/json/'',
                            out_header = Map.empty\<rparr> = Inr rp"
    and dloc: "decode_LocationInfo wd (reply_body rp) = Inr l"
    and city: "Localidade l \<noteq> []"
    and wea: "transport wd \<lparr>out_url = weather_url (Localidade l), out_header = Map.empty\<rparr> = Inr rp'"
    and dwea: "decode_WeatherInfo wd (reply_body rp') = Inr weather"
    and c: "c = Temperature weather"
  shows "writer (h_temperatureHandler wd r new_writer st) =
           Encode (encode_LocationInfoAndCity wd
                    \<lparr>City = Localidade l, TempC = c,
                     TempF = f64_add (f64_mul c (f64_const (18 / 10))) (f64_const 32),
                     TempK = f64_add c (f64_const 273)\<rparr>)
             (Header_Set ''Content-Type'' ''application/json'' new_writer)
       \<and> writer (temperatureHandler wd r new_writer st) =
           Encode (encode_LocationInfoAndCity wd
                    \<lparr>City = Localidade l, TempC = c,
                     TempF = f64_add (f64_mul c (f64_const (18 / 10))) (f64_const 32),
                     TempK = f64_add c (f64_const 273)\<rparr>)
             (Header_Set ''Content-Type'' ''application/json'' new_writer)
       \<and> (c = Finite 25 \<longrightarrow>
            f64_add (f64_mul c (f64_const (18 / 10))) (f64_const 32) = Finite 77
          \<and> f64_add c (f64_const 273) = Finite 298)
       \<and> (c = Finite (of_int (5 * k)) \<and> \<bar>k\<bar> < 2 ^ 49 \<longrightarrow>
            f64_add (f64_mul c (f64_const (18 / 10))) (f64_const 32) = Finite (of_int (9 * k + 32)))
       \<and> (c = Finite (of_int n) \<and> \<bar>n\<bar> < 2 ^ 52 \<longrightarrow>
            f64_add c (f64_const 273) = Finite (of_int (n + 273)))"
proof (intro conjI impI)
  show "writer (h_temperatureHandler wd r new_writer st) =
           Encode (encode_LocationInfoAndCity wd
                    \<lparr>City = Localidade l, TempC = c,
                     TempF = f64_add (f64_mul c (f64_const (18 / 10))) (f64_const 32),
                     TempK = f64_add c (f64_const 273)\<rparr>)
             (Header_Set ''Content-Type'' ''application/json'' new_writer)"
    unfolding h_temperatureHandler_def resolver_defs
    by (simp only: Let_def split_def fst_conv snd_conv len loc dloc wea dwea c sum.case)
       (simp add: city)
  show "writer (temperatureHandler wd r new_writer st) =
           Encode (encode_LocationInfoAndCity wd
                    \<lparr>City = Localidade l, TempC = c,
                     TempF = f64_add (f64_mul c (f64_const (18 / 10))) (f64_const 32),
                     TempK = f64_add c (f64_const 273)\<rparr>)
             (Header_Set ''Content-Type'' ''application/json'' new_writer)"
    unfolding temperatureHandler_def getLocation_def getWeather_def client_Get_def
    by (simp only: Let_def split_def fst_conv snd_conv len loc dloc wea dwea c sum.case)
       (simp add: city)
next
  assume "c = Finite 25"
  then show "f64_add (f64_mul c (f64_const (18 / 10))) (f64_const 32) = Finite 77"
    by (simp only: fahrenheit_25)
next
  assume "c = Finite 25"
  then show "f64_add c (f64_const 273) = Finite 298"
    by (simp only: kelvin_25)
next
  assume "c = Finite (of_int (5 * k)) \<and> \<bar>k\<bar> < 2 ^ 49"
  then show "f64_add (f64_mul c (f64_const (18 / 10))) (f64_const 32) = Finite (of_int (9 * k + 32))"
    using fahrenheit_exact [of k] by simp
next
  assume "c = Finite (of_int n) \<and> \<bar>n\<bar> < 2 ^ 52"
  then show "f64_add c (f64_const 273) = Finite (of_int (n + 273))"
    using kelvin_exact [of n] by simp
qed

text \<open>
  C6. In a request that passes the length check, the locality call is the first outbound
  call. When it fails or yields an empty locality it is the only one, and the answer is
  404 with \<^verbatim>\<open>can not find zipcode\<close>. Otherwise the weather call follows it, and in the
  span log the locality span is ended before the weather span is started.
\<close>

theorem location_completes_before_weather:
  assumes len: "length zipCode = 8" and zipCode: "zipCode = Query_Get r ''zipcode''"
    and loc: "loc = transport wd \<lparr>out_url = ''https://viacep.com.br/ws/'' @ zipCode @ ''/json/'',
                                 out_header = Map.empty\<rparr>"
    and res: "res = h_temperatureHandler wd r new_writer st"
    and n: "n = ids_drawn st"
  shows "((\<exists>e. loc = Inl e) \<or> (\<exists>rp e. loc = Inr rp \<and> decode_LocationInfo wd (reply_body rp) = Inl e)
          \<or> (\<exists>rp l. loc = Inr rp \<and> decode_LocationInfo wd (reply_body rp) = Inr l \<and> Localidade l = [])
          \<longrightarrow> calls (after res) = calls st @ [\<lparr>out_url = ''https://viacep.com.br/ws/'' @ zipCode @ ''/json/'',
                                                 out_header = Map.empty\<rparr>]
            \<and> status_code (writer res) = 404
            \<and> written_body (writer res) = ''can not find zipcode\<newline>'')
       \<and> (loc = Inr rp \<and> decode_LocationInfo wd (reply_body rp) = Inr l \<and> Localidade l \<noteq> []
          \<longrightarrow> calls (after res) =
                calls st @ [\<lparr>out_url = ''https://viacep.com.br/ws/'' @ zipCode @ ''/json/'', out_header = Map.empty\<rparr>,
                            \<lparr>out_url = weather_url (Localidade l), out_header = Map.empty\<rparr>]
            \<and> (\<exists>sc0 sc1 sc2. events (after res) =
                  events st @ [SpanStart n (''SPAN_INICIAL '' @ REQUEST_NAME_OTEL wd) sc0, SpanEnd n,
                               SpanStart (n + 1) ''Chamada externa: getLocation'' sc1, SpanEnd (n + 1),
                               SpanStart (n + 2) ''Chamada externa: getWeather'' sc2, SpanEnd (n + 2)]))"
proof (intro conjI impI)
  assume a: "(\<exists>e. loc = Inl e) \<or> (\<exists>rp e. loc = Inr rp \<and> decode_LocationInfo wd (reply_body rp) = Inl e)
          \<or> (\<exists>rp l. loc = Inr rp \<and> decode_LocationInfo wd (reply_body rp) = Inr l \<and> Localidade l = [])"
  have w: "writer res = http_Error new_writer ''can not find zipcode'' 404
           \<and> calls (after res) = calls st @ [\<lparr>out_url = ''https://viacep.com.br/ws/'' @ zipCode @ ''/json/'',
                                                 out_header = Map.empty\<rparr>]"
    using a len loc [symmetric] unfolding res zipCode
    by (auto simp add: h_temperatureHandler_def resolver_defs Let_def split_def)
  then show "calls (after res) = calls st @ [\<lparr>out_url = ''https://viacep.com.br/ws/'' @ zipCode @ ''/json/'',
                                                 out_header = Map.empty\<rparr>]" by simp
  from w show "status_code (writer res) = 404"
    and "written_body (writer res) = ''can not find zipcode\<newline>''"
    by (simp_all add: status_http_Error body_http_Error)
next
  assume a: "loc = Inr rp \<and> decode_LocationInfo wd (reply_body rp) = Inr l \<and> Localidade l \<noteq> []"
  show "calls (after res) =
                calls st @ [\<lparr>out_url = ''https://viacep.com.br/ws/'' @ zipCode @ ''/json/'', out_header = Map.empty\<rparr>,
                            \<lparr>out_url = weather_url (Localidade l), out_header = Map.empty\<rparr>]"
    using a len loc [symmetric] unfolding res zipCode
    by (simp add: h_temperatureHandler_def resolver_defs Let_def split_def)
  show "\<exists>sc0 sc1 sc2. events (after res) =
                  events st @ [SpanStart n (''SPAN_INICIAL '' @ REQUEST_NAME_OTEL wd) sc0, SpanEnd n,
                               SpanStart (n + 1) ''Chamada externa: getLocation'' sc1, SpanEnd (n + 1),
                               SpanStart (n + 2) ''Chamada externa: getWeather'' sc2, SpanEnd (n + 2)]"
    using a len loc [symmetric] unfolding res zipCode n
    by (simp add: h_temperatureHandler_def resolver_defs Let_def split_def)
qed

section \<open>The relay of the entry service\<close>

text \<open>
  C7, as the code has it. For a POST with a valid code, service-a makes one call to
  \<^verbatim>\<open>http://service-b:8081/zipcode?zipcode=<code>\<close> and answers as follows. A transport error
  gives 500 with the error text. A reply with status 404 gives 404 with the fixed message
  \<^verbatim>\<open>can not find zipcode\<close>; the reply's body is not read. Any other reply is decoded as a
  \<^verbatim>\<open>ZipCodeResponse\<close>: when that fails the answer is 500 with the decoder's error text,
  whatever the reply's status and body were; when it succeeds the reply's status is
  passed on and the body is the re-encoding of the decoded value. So a reply with status
  500 always leads to 500.
\<close>

theorem relay_of_downstream_reply:
  assumes post: "req_method r = ''POST''"
    and dec: "decode_ZipCodeRequest wd (req_body r) = Inr req"
    and valid: "isValidZipCode (CEP req)"
    and res: "res = h_zipCodeHandler wd r new_writer st"
    and down: "down = transport wd (last (calls (after res)))"
  shows "out_url (last (calls (after res))) = ''http://service-b:8081/zipcode?zipcode='' @ CEP req
       \<and> (down = Inl err \<longrightarrow> writer res = http_Error new_writer err 500)
       \<and> (down = Inr rp \<and> reply_status rp = 404 \<longrightarrow>
            writer res = http_Error new_writer ''can not find zipcode'' 404)
       \<and> (down = Inr rp \<and> reply_status rp \<noteq> 404
            \<and> decode_ZipCodeResponse wd (reply_body rp) = Inl err \<longrightarrow>
            writer res = http_Error new_writer err 500)
       \<and> (down = Inr rp \<and> reply_status rp \<noteq> 404 \<and> 200 \<le> reply_status rp \<and> reply_status rp \<le> 999
            \<and> decode_ZipCodeResponse wd (reply_body rp) = Inr z \<longrightarrow>
            status_code (writer res) = reply_status rp
          \<and> written_body (writer res) = (case encode_ZipCodeResponse wd z of None \<Rightarrow> [] | Some b \<Rightarrow> b))
       \<and> (down = Inr rp \<and> reply_status rp = 500 \<longrightarrow> status_code (writer res) = 500)"
proof -
  define out where "out = \<lparr>out_url = ''http://service-b:8081/zipcode?zipcode='' @ CEP req,
      out_header = Inject (Some \<lparr>trace_id = trace_ids wd (Suc (Suc (ids_drawn st))),
                                 span_id = span_ids wd (Suc (Suc (ids_drawn st))), sampled = True\<rparr>) Map.empty\<rparr>"
  have l: "last (calls (after res)) = out"
    unfolding res out_def using post dec valid
    by (simp add: entry_defs Let_def split_def)
  have w: "writer res =
      (case transport wd out of
         Inl err \<Rightarrow> http_Error new_writer err 500
       | Inr rp \<Rightarrow>
           if reply_status rp = 404 then http_Error new_writer ''can not find zipcode'' 404
           else (case decode_ZipCodeResponse wd (reply_body rp) of
                   Inl err \<Rightarrow> http_Error new_writer err 500
                 | Inr z \<Rightarrow> Encode (encode_ZipCodeResponse wd z)
                     (Header_Set ''Content-Type'' ''application/json''
                       (WriteHeader (reply_status rp) new_writer))))"
    unfolding res out_def using post dec valid
    by (simp add: entry_defs Let_def split_def)
  have d: "down = transport wd out" unfolding down l ..
  have e: "status_code (Encode b (Header_Set k v (WriteHeader c new_writer))) = c
         \<and> written_body (Encode b (Header_Set k v (WriteHeader c new_writer)))
             = (case b of None \<Rightarrow> [] | Some x \<Rightarrow> x)" for b k v c
    by (simp add: writer_defs split: option.splits)
  show ?thesis
    unfolding l w d [symmetric]
    by (cases down) (auto simp: out_def e status_http_Error split: sum.splits)
qed

section \<open>Span lifecycle\<close>

text \<open>
  C8. On every path through a handler, the span events it appends to the log are closed:
  each span it starts is ended exactly once, after its start, and the handles are
  distinct. The resolvers \<^verbatim>\<open>getLocation\<close> and \<^verbatim>\<open>getWeather\<close> append exactly the start and
  the end of their own span, whether the call succeeds or fails; in service-a the span
  of the downstream call is part of the handler's log.
\<close>

theorem spans_ended_exactly_once:
  "(\<exists>es. events (after (h_zipCodeHandler wd r w st)) = events st @ es
          \<and> spans_closed es \<and> distinct (started es))
   \<and> (\<exists>es. events (after (h_temperatureHandler wd r w st)) = events st @ es
          \<and> spans_closed es \<and> distinct (started es))
   \<and> (\<exists>sc. events (snd (h_getLocation wd ctx zipCode st)) =
          events st @ [SpanStart (ids_drawn st) ''Chamada externa: getLocation'' sc,
                       SpanEnd (ids_drawn st)])
   \<and> (\<exists>sc. events (snd (h_getWeather wd ctx city st)) =
          events st @ [SpanStart (ids_drawn st) ''Chamada externa: getWeather'' sc,
                       SpanEnd (ids_drawn st)])"
proof (intro conjI)
  show "\<exists>es. events (after (h_zipCodeHandler wd r w st)) = events st @ es
          \<and> spans_closed es \<and> distinct (started es)"
    by (simp add: entry_defs Let_def split_def spans_closed_def split: sum.splits)
  show "\<exists>es. events (after (h_temperatureHandler wd r w st)) = events st @ es
          \<and> spans_closed es \<and> distinct (started es)"
    by (simp add: h_temperatureHandler_def resolver_defs Let_def split_def spans_closed_def)
  show "\<exists>sc. events (snd (h_getLocation wd ctx zipCode st)) =
          events st @ [SpanStart (ids_drawn st) ''Chamada externa: getLocation'' sc,
                       SpanEnd (ids_drawn st)]"
    by (simp add: resolver_defs Let_def split_def)
  show "\<exists>sc. events (snd (h_getWeather wd ctx city st)) =
          events st @ [SpanStart (ids_drawn st) ''Chamada externa: getWeather'' sc,
                       SpanEnd (ids_drawn st)]"
    by (simp add: resolver_defs Let_def split_def)
qed


section \<open>Propagation and the scenario, evaluated\<close>

text \<open>
  The propagator's pair is sound by itself: a valid span context that is injected into
  a header map is what \<open>Extract\<close> reads back from it.
\<close>

lemma traceparent_roundtrip:
  assumes "IsValid sc"
  shows "parse_traceparent (format_traceparent sc) = Some sc"
proof -
  obtain t s b where sc: "sc = \<lparr>trace_id = t, span_id = s, sampled = b\<rparr>" by (cases sc)
  from assms have lt: "length t = 32" and ls: "length s = 16"
    and vt: "valid_id 32 t" and vs: "valid_id 16 s"
    by (simp_all add: IsValid_def valid_id_def sc)
  show ?thesis
    by (simp add: parse_traceparent_def format_traceparent_def sc lt ls vt vs nth_append Let_def
        is_lower_hex_def)
qed

lemma Extract_Inject: "IsValid sc \<Longrightarrow> Extract ctx (Inject (Some sc) h) = Some sc"
  by (simp add: Extract_def Inject_def Header_Get_def traceparent_roundtrip)

lemma Extract_empty: "Extract ctx Map.empty = ctx"
  by (simp add: Extract_def Header_Get_def parse_traceparent_def)

text \<open>
  In service-a the outbound call carries the context of a root span that the transport
  starts with the next identifiers of the generator, whatever the inbound request and
  its context were. In service-b every span of a request that arrives with an injected
  context carries that context's trace id.
\<close>

lemma span_trace_ids_append:
  "span_trace_ids (xs @ ys) = span_trace_ids xs @ span_trace_ids ys"
  by (induction xs rule: span_trace_ids.induct) simp_all

lemma entry_outbound_context_is_fresh:
  assumes "req_method r = ''POST''"
    and "decode_ZipCodeRequest wd (req_body r) = Inr req"
    and "isValidZipCode (CEP req)"
  shows "calls (after (h_zipCodeHandler wd r w st)) =
           calls st @ [\<lparr>out_url = ''http://service-b:8081/zipcode?zipcode='' @ CEP req,
                        out_header =
                          Inject (Some \<lparr>trace_id = trace_ids wd (ids_drawn st + 2),
                                        span_id = span_ids wd (ids_drawn st + 2),
                                        sampled = True\<rparr>) Map.empty\<rparr>]"
  using assms by (simp add: entry_defs Let_def split_def)

lemma resolution_spans_follow_inbound_header:
  assumes "IsValid sc" and "req_header r = Inject (Some sc) h"
  shows "set (span_trace_ids (events (after (h_temperatureHandler wd r w st))))
           \<subseteq> set (span_trace_ids (events st)) \<union> {trace_id sc}"
  using assms
  by (simp add: h_temperatureHandler_def resolver_defs Let_def split_def Extract_Inject
      span_trace_ids_append)

lemma scenario_id_valid:
  "fill \<in> set ''abcdef'' \<Longrightarrow> 1 < width \<Longrightarrow> valid_id width (scenario_id fill width n)"
proof -
  assume f: "fill \<in> set ''abcdef''" and w: "1 < width"
  have "n mod 16 < 16" by simp
  then have "''0123456789abcdef'' ! (n mod 16) \<in> set ''0123456789abcdef''"
    by (intro nth_mem) simp
  then have h: "is_lower_hex (''0123456789abcdef'' ! (n mod 16))" unfolding is_lower_hex_def .
  from f have "is_lower_hex fill" and "fill \<noteq> CHR ''0''" by (auto simp: is_lower_hex_def)
  with h w show ?thesis
    by (cases width) (auto simp: valid_id_def scenario_id_def list_all_iff)
qed

lemma scenario_IsValid:
  "IsValid \<lparr>trace_id = scenario_id (CHR ''a'') 32 n, span_id = scenario_id (CHR ''a'') 16 m, sampled = b\<rparr>"
  "IsValid \<lparr>trace_id = scenario_id (CHR ''b'') 32 n, span_id = scenario_id (CHR ''b'') 16 m, sampled = b\<rparr>"
  by (simp_all add: IsValid_def scenario_id_valid)

lemma Extract_caller:
  "Extract ctx [''Traceparent'' \<mapsto> caller_traceparent] =
     Some \<lparr>trace_id = ''0af7651916cd43dd8448eb211c80319c'', span_id = ''b7ad6b7169203331'', sampled = True\<rparr>"
  by (simp add: Extract_def Header_Get_def parse_traceparent_def caller_traceparent_def valid_id_def
      is_lower_hex_def)

lemma weather_url_sao_paulo:
  "weather_url sao_paulo =
     ''https://api.weatherapi.com/v1/current.json?key=6c0e6aefacc44ed0a69130616242705&q=S%C3%A3o+Paulo''"
  by (simp add: weather_url_def sao_paulo_def shouldEscape_def upperhex_def)

lemma sao_paulo_not_empty: "sao_paulo \<noteq> []"
  by (simp add: sao_paulo_def)

lemma fahrenheit_25_nf:
  "f64_add (f64_mul (Finite 25) (f64_const (9 / 5))) (f64_const 32) = Finite 77"
  using fahrenheit_25 by simp

lemma world_b_sel:
  "trace_ids world_b = scenario_id (CHR ''b'') 32"
  "span_ids world_b = scenario_id (CHR ''b'') 16"
  "REQUEST_NAME_OTEL world_b = ''service-b-request''"
  "transport world_b out =
     (if out_url out = ''https://viacep.com.br/ws/01310900/json/''
      then Inr \<lparr>reply_status = 200, reply_body = viacep_body\<rparr>
      else if out_url out = weather_url sao_paulo
      then Inr \<lparr>reply_status = 200, reply_body = weather_body\<rparr>
      else Inl ''dial tcp: i/o timeout'')"
  "decode_LocationInfo world_b b =
     (if b = viacep_body then Inr \<lparr>Localidade = sao_paulo\<rparr> else Inl syntax_error)"
  "decode_WeatherInfo world_b b =
     (if b = weather_body then Inr \<lparr>Temperature = Finite 25\<rparr> else Inl syntax_error)"
  "encode_LocationInfoAndCity world_b v =
     (if v = \<lparr>City = sao_paulo, TempC = Finite 25, TempF = Finite 77, TempK = Finite 298\<rparr>
      then Some composed_body else None)"
  by (simp_all add: world_b_def)

lemma world_a_sel:
  "trace_ids world_a = scenario_id (CHR ''a'') 32"
  "span_ids world_a = scenario_id (CHR ''a'') 16"
  "REQUEST_NAME_OTEL world_a = ''service-a-request''"
  "transport world_a = service_b_reply world_b"
  "scan_json world_a b =
     (if b = ''{\"cep\":\"01310900\"}'' then Inr (JObject [(''cep'', JString ''01310900'')])
      else if b = ''{\"cep\":\"123\"}'' then Inr (JObject [(''cep'', JString ''123'')])
      else if b = ''{}'' then Inr (JObject [])
      else if b = ''{\"zip\":\"01310900\"}'' then Inr (JObject [(''zip'', JString ''01310900'')])
      else if b = ''[]'' then Inr (JArray [])
      else Inl syntax_error)"
  "decode_ZipCodeRequest world_a b =
     (if b = ''{\"cep\":\"01310900\"}'' then Inr \<lparr>CEP = ''01310900''\<rparr>
      else if b = ''{\"cep\":\"123\"}'' then Inr \<lparr>CEP = ''123''\<rparr>
      else if b = ''{}'' then Inr \<lparr>CEP = []\<rparr>
      else if b = ''{\"zip\":\"01310900\"}'' then Inr \<lparr>CEP = []\<rparr>
      else if b = ''[]'' then Inl (value_type_error (JArray []))
      else Inl syntax_error)"
  "decode_ZipCodeResponse world_a b =
     (if b = composed_body
      then Inr \<lparr>zr_City = sao_paulo, zr_TempC = Finite 25, zr_TempF = Finite 77,
                zr_TempK = Finite 298\<rparr>
      else Inl syntax_error)"
  "encode_ZipCodeResponse world_a v =
     (if v = \<lparr>zr_City = sao_paulo, zr_TempC = Finite 25, zr_TempF = Finite 77,
               zr_TempK = Finite 298\<rparr>
      then Some composed_body else None)"
  by (simp_all add: world_a_def decode_ZipCodeRequest_def unmarshal_ZipCodeRequest_def
      names_field_def upper_ascii_def)

lemmas scenario_defs = world_b_sel world_a_sel get_zipcode_def post_zipcode_def
  traced_post_zipcode_def Query_Get_def start_def Extract_empty Extract_Inject Extract_caller
  scenario_IsValid weather_url_sao_paulo sao_paulo_not_empty fahrenheit_25_nf kelvin_25
  viacep_body_def weather_body_def


lemma b_happy:
  "h_temperatureHandler world_b (get_zipcode ''01310900'') new_writer start =
    \<lparr>writer = Encode (Some composed_body) (Header_Set ''Content-Type'' ''application/json'' new_writer),
     inbound_header = Inject (Some \<lparr>trace_id = scenario_id CHR ''b'' 32 0,
                                   span_id = scenario_id CHR ''b'' 16 0, sampled = True\<rparr>) Map.empty,
     after = \<lparr>ids_drawn = 3,
              events = [SpanStart 0 ''SPAN_INICIAL service-b-request''
                          \<lparr>trace_id = scenario_id CHR ''b'' 32 0, span_id = scenario_id CHR ''b'' 16 0, sampled = True\<rparr>,
                        SpanEnd 0,
                        SpanStart 1 ''Chamada externa: getLocation''
                          \<lparr>trace_id = scenario_id CHR ''b'' 32 0, span_id = scenario_id CHR ''b'' 16 1, sampled = True\<rparr>,
                        SpanEnd 1,
                        SpanStart 2 ''Chamada externa: getWeather''
                          \<lparr>trace_id = scenario_id CHR ''b'' 32 0, span_id = scenario_id CHR ''b'' 16 2, sampled = True\<rparr>,
                        SpanEnd 2],
              calls = [\<lparr>out_url = ''https://viacep.com.br/ws/01310900/json/'', out_header = Map.empty\<rparr>,
                       \<lparr>out_url = ''https://api.weatherapi.com/v1/current.json?key=6c0e6aefacc44ed0a69130616242705&q=S%C3%A3o+Paulo'',
                        out_header = Map.empty\<rparr>]\<rparr>\<rparr>"
  by (simp add: h_temperatureHandler_def resolver_defs Let_def split_def scenario_defs eval_nat_numeral)

lemma replicate_31: "replicate 31 c = [c,c,c,c,c,c,c,c,c,c,c,c,c,c,c,c,c,c,c,c,c,c,c,c,c,c,c,c,c,c,c]"
  by (simp add: eval_nat_numeral)

lemma replicate_15: "replicate 15 c = [c,c,c,c,c,c,c,c,c,c,c,c,c,c,c]"
  by (simp add: eval_nat_numeral)

lemma scenario_ids_a:
  "scenario_id (CHR ''a'') 16 (Suc 0) = ''aaaaaaaaaaaaaaa1''"
  "scenario_id (CHR ''a'') 32 (Suc (Suc (Suc 0))) = ''aaaaaaaaaaaaaaaaaaaaaaaaaaaaaaa3''"
  "scenario_id (CHR ''a'') 16 (Suc (Suc (Suc 0))) = ''aaaaaaaaaaaaaaa3''"
proof -
  have three: "Suc (Suc (Suc 0)) = 3" by simp
  show "scenario_id (CHR ''a'') 16 (Suc 0) = ''aaaaaaaaaaaaaaa1''"
    by (simp add: scenario_id_def replicate_15)
  show "scenario_id (CHR ''a'') 32 (Suc (Suc (Suc 0))) = ''aaaaaaaaaaaaaaaaaaaaaaaaaaaaaaa3''"
    unfolding three by (simp add: scenario_id_def replicate_31)
  show "scenario_id (CHR ''a'') 16 (Suc (Suc (Suc 0))) = ''aaaaaaaaaaaaaaa3''"
    unfolding three by (simp add: scenario_id_def replicate_15)
qed


lemma b_served:
  assumes "IsValid sc"
  shows "writer (service_b world_b \<lparr>out_url = ''http://service-b:8081/zipcode?zipcode=01310900'',
                            out_header = Inject (Some sc) Map.empty\<rparr>)
           = Encode (Some composed_body) (Header_Set ''Content-Type'' ''application/json'' new_writer)"
    and "span_trace_ids (events (after (service_b world_b
           \<lparr>out_url = ''http://service-b:8081/zipcode?zipcode=01310900'',
            out_header = Inject (Some sc) Map.empty\<rparr>)))
           = [trace_id sc, trace_id sc, trace_id sc]"
  using assms
  by (simp_all add: service_b_def deliver_def otelhttp_NewHandler_def h_temperatureHandler_def
      resolver_defs Let_def split_def scenario_defs)

lemma b_reply:
  assumes "IsValid sc"
  shows "service_b_reply world_b \<lparr>out_url = ''http://service-b:8081/zipcode?zipcode=01310900'',
                                  out_header = Inject (Some sc) Map.empty\<rparr>
           = Inr \<lparr>reply_status = 200, reply_body = composed_body\<rparr>"
  by (simp add: service_b_reply_def b_served [OF assms] writer_defs)

lemmas id_eval = scenario_ids_a IsValid_def valid_id_def is_lower_hex_def

lemma b_weather_down:
  assumes "IsValid sc"
  shows "service_b_reply world_b_weather_down
           \<lparr>out_url = ''http://service-b:8081/zipcode?zipcode=01310900'',
            out_header = Inject (Some sc) Map.empty\<rparr>
           = Inr \<lparr>reply_status = 500, reply_body = ''failed to get weather info\<newline>''\<rparr>"
  using assms
  by (simp add: service_b_reply_def service_b_def deliver_def otelhttp_NewHandler_def
      h_temperatureHandler_def resolver_defs Let_def split_def scenario_defs
      world_b_weather_down_def world_b_def writer_defs)

lemma world_a_weather_down_sel:
  "trace_ids world_a_weather_down = scenario_id (CHR ''a'') 32"
  "span_ids world_a_weather_down = scenario_id (CHR ''a'') 16"
  "REQUEST_NAME_OTEL world_a_weather_down = ''service-a-request''"
  "transport world_a_weather_down = service_b_reply world_b_weather_down"
  "decode_ZipCodeRequest world_a_weather_down = decode_ZipCodeRequest world_a"
  "decode_ZipCodeResponse world_a_weather_down b =
     Inl ''invalid character 'i' in literal false (expecting 'l')''"
  by (simp_all add: world_a_weather_down_def world_a_def decode_ZipCodeRequest_def fun_eq_iff)

subsection \<open>The trace across the hop\<close>

text \<open>
  C1. The trace id that service-b observes for a request should be the trace id that
  service-a extracted or generated for it. Evaluated on the scenario, with a caller that
  sends the trace \<^verbatim>\<open>0af7651916cd43dd8448eb211c80319c\<close>: both spans of service-a carry the
  caller's trace id, and \<^verbatim>\<open>Inject\<close> writes that context into the headers of the inbound
  request; the outbound call, built by \<^verbatim>\<open>client.Get(url)\<close> from the URL alone, carries the
  context of a root span that the transport has just started, with a new trace id, and
  the three spans of service-b carry this new id.
\<close>

theorem trace_id_not_propagated:
  "let ra = service_a world_a (traced_post_zipcode ''{\"cep\":\"01310900\"}'');
       out = last (calls (after ra));
       rb = service_b world_b out
   in status_code (writer ra) = 200
      \<and> span_trace_ids (events (after ra)) =
           [''0af7651916cd43dd8448eb211c80319c'', ''0af7651916cd43dd8448eb211c80319c'']
      \<and> Extract None (inbound_header ra) =
           Some \<lparr>trace_id = ''0af7651916cd43dd8448eb211c80319c'',
                 span_id = ''aaaaaaaaaaaaaaa1'', sampled = True\<rparr>
      \<and> Extract None (out_header out) =
           Some \<lparr>trace_id = ''aaaaaaaaaaaaaaaaaaaaaaaaaaaaaaa3'',
                 span_id = ''aaaaaaaaaaaaaaa3'', sampled = True\<rparr>
      \<and> span_trace_ids (events (after rb)) =
           [''aaaaaaaaaaaaaaaaaaaaaaaaaaaaaaa3'', ''aaaaaaaaaaaaaaaaaaaaaaaaaaaaaaa3'',
            ''aaaaaaaaaaaaaaaaaaaaaaaaaaaaaaa3'']"
  by (simp add: service_a_def otelhttp_NewHandler_def entry_defs Let_def split_def scenario_defs
      isValidZipCode_iff is_digit_def id_eval b_reply b_served writer_defs)

subsection \<open>Instances of the validation theorems\<close>

text \<open>
  C2 at \<^verbatim>\<open>abcdefgh\<close>: the traced handler of service-b does not answer 412, although the
  string is not made of digits.
\<close>

theorem resolution_service_accepts_letters:
  "\<not> (status_code (writer (h_temperatureHandler world_b (get_zipcode ''abcdefgh'') new_writer start)) = 412
       \<longleftrightarrow> \<not> (length ''abcdefgh'' = 8 \<and> (\<forall>c \<in> set ''abcdefgh''. is_digit c)))"
  by (simp add: h_temperatureHandler_def Let_def split_def status_http_Error status_Encode
      get_zipcode_def Query_Get_def is_digit_def)

text \<open>C2 at \<^verbatim>\<open>01310900\<close>: accepted by \<open>isValidZipCode\<close> and by both handlers of service-b.\<close>

theorem zip_validation_shapes_witness:
  "isValidZipCode ''01310900''
   \<and> status_code (writer (h_temperatureHandler world_b (get_zipcode ''01310900'') new_writer start)) \<noteq> 412
   \<and> status_code (writer (temperatureHandler world_b (get_zipcode ''01310900'') new_writer start)) \<noteq> 422"
  using zip_validation_shapes [where s = "''01310900''" and wd = world_b
      and r = "get_zipcode ''01310900''" and st = start]
  by (simp add: is_digit_def get_zipcode_def Query_Get_def)

text \<open>
  C5 at \<^verbatim>\<open>abcdefgh\<close>: \<open>isValidZipCode\<close> rejects the string, and the traced handler of
  service-b calls \<^verbatim>\<open>client.Get\<close> with the locality provider's URL for it, a URL that
  \<^verbatim>\<open>client.Get\<close> can parse.
\<close>

theorem letters_reach_the_locality_provider:
  "\<not> isValidZipCode ''abcdefgh''
   \<and> calls (after (h_temperatureHandler world_b (get_zipcode ''abcdefgh'') new_writer start)) =
       [\<lparr>out_url = ''https://viacep.com.br/ws/abcdefgh/json/'', out_header = Map.empty\<rparr>]"
  by (simp add: isValidZipCode_iff is_digit_def h_temperatureHandler_def resolver_defs Let_def
      split_def scenario_defs)

text \<open>
  C5 at \<^verbatim>\<open>123\<close>: both services answer 412 and make no call. At \<^verbatim>\<open>01310900\<close> service-b calls
  the locality provider first.
\<close>

theorem invalid_shape_makes_no_call_witness:
  "status_code (writer (h_zipCodeHandler world_a (post_zipcode ''{\"cep\":\"123\"}'') new_writer start)) = 412
   \<and> calls (after (h_zipCodeHandler world_a (post_zipcode ''{\"cep\":\"123\"}'') new_writer start)) = []
   \<and> status_code (writer (h_temperatureHandler world_b (get_zipcode ''123'') new_writer start)) = 412
   \<and> calls (after (h_temperatureHandler world_b (get_zipcode ''123'') new_writer start)) = []
   \<and> (\<exists>cs. calls (after (h_temperatureHandler world_b (get_zipcode ''01310900'') new_writer start)) =
          \<lparr>out_url = ''https://viacep.com.br/ws/01310900/json/'', out_header = Map.empty\<rparr> # cs)"
  using invalid_shape_makes_no_call [where r = "post_zipcode ''{\"cep\":\"123\"}''" and wd = world_a
      and req = "\<lparr>CEP = ''123''\<rparr>" and st = start and r' = "get_zipcode ''123''"]
    invalid_shape_makes_no_call [where r = "post_zipcode ''{\"cep\":\"123\"}''" and wd = world_b
      and req = "\<lparr>CEP = ''123''\<rparr>" and st = start and r' = "get_zipcode ''123''"]
    invalid_shape_makes_no_call [where r = "post_zipcode ''{\"cep\":\"123\"}''" and wd = world_b
      and req = "\<lparr>CEP = ''123''\<rparr>" and st = start and r' = "get_zipcode ''01310900''"]
  by (simp add: isValidZipCode_iff scenario_defs status_http_Error)

text \<open>
  C10 at the body \<^verbatim>\<open>[]\<close>: valid JSON without a \<^verbatim>\<open>cep\<close> field, and the POST is answered 400
  with the type error of \<^verbatim>\<open>Decode\<close>, not 412.
\<close>

theorem array_body_is_answered_400:
  "scan_json world_a ''[]'' = Inr (JArray [])
   \<and> status_code (writer (h_zipCodeHandler world_a (post_zipcode ''[]'') new_writer start)) = 400
   \<and> written_body (writer (h_zipCodeHandler world_a (post_zipcode ''[]'') new_writer start)) =
       ''json: cannot unmarshal array into Go value of type main.ZipCodeRequest\<newline>''"
  by (simp add: entry_defs Let_def split_def scenario_defs status_http_Error body_http_Error
      value_type_error_def)

text \<open>
  C10 at the bodies \<^verbatim>\<open>{"zip":"01310900"}\<close> and \<^verbatim>\<open>{}\<close>: answered 412 with \<^verbatim>\<open>invalid zipcode\<close>,
  without a call.
\<close>

theorem object_without_cep_is_412_witness:
  "status_code (writer (h_zipCodeHandler world_a (post_zipcode ''{\"zip\":\"01310900\"}'') new_writer start)) = 412
   \<and> written_body (writer (h_zipCodeHandler world_a (post_zipcode ''{\"zip\":\"01310900\"}'') new_writer start))
        = ''invalid zipcode\<newline>''
   \<and> calls (after (h_zipCodeHandler world_a (post_zipcode ''{\"zip\":\"01310900\"}'') new_writer start)) = []
   \<and> status_code (writer (h_zipCodeHandler world_a (post_zipcode ''{}'') new_writer start)) = 412"
  using object_without_cep_is_412 [where r = "post_zipcode ''{\"zip\":\"01310900\"}''" and wd = world_a
      and ms = "[(''zip'', JString ''01310900'')]" and st = start]
    object_without_cep_is_412 [where r = "post_zipcode ''{}''" and wd = world_a and ms = "[]"
      and st = start]
  by (simp add: scenario_defs names_field_def upper_ascii_def)

subsection \<open>Instances of the pipeline theorems\<close>

text \<open>
  C3 with the locality provider unreachable: the transport fails, the handler answers
  404, not 500, and its response is the one it gives for an unknown code.
\<close>

theorem locality_outage_is_answered_404:
  "transport world_b_outage \<lparr>out_url = ''https://viacep.com.br/ws/01310900/json/'', out_header = Map.empty\<rparr>
     = Inl ''dial tcp: connection refused''
   \<and> status_code (writer (h_temperatureHandler world_b_outage (get_zipcode ''01310900'') new_writer start)) = 404
   \<and> writer (h_temperatureHandler world_b_outage (get_zipcode ''01310900'') new_writer start)
      = writer (h_temperatureHandler world_b_unknown (get_zipcode ''01310900'') new_writer start)"
  by (simp add: h_temperatureHandler_def resolver_defs Let_def split_def scenario_defs
      world_b_outage_def world_b_unknown_def world_b_def status_http_Error)

text \<open>C3 at the outage and at the unknown code: the same 404, different results of \<^verbatim>\<open>getLocation\<close>.\<close>

theorem location_failure_or_empty_is_404_witness:
  "writer (h_temperatureHandler world_b_outage (get_zipcode ''01310900'') new_writer start)
     = http_Error new_writer ''can not find zipcode'' 404
   \<and> fst (h_getLocation world_b_outage None ''01310900'' start) = ([], Some ''dial tcp: connection refused'')
   \<and> writer (h_temperatureHandler world_b_unknown (get_zipcode ''01310900'') new_writer start)
     = http_Error new_writer ''can not find zipcode'' 404
   \<and> fst (h_getLocation world_b_unknown None ''01310900'' start) = ([], None)"
  using location_failure_or_empty_is_404 [where r = "get_zipcode ''01310900''"
      and loc = "Inl ''dial tcp: connection refused''" and wd = world_b_outage
      and e = "''dial tcp: connection refused''" and ctx = None and st = start and st' = start]
    location_failure_or_empty_is_404 [where r = "get_zipcode ''01310900''"
      and loc = "Inr \<lparr>reply_status = 200, reply_body = ''{\"localidade\":\"\"}''\<rparr>"
      and wd = world_b_unknown and ctx = None and st = start and st' = start
      and rp = "\<lparr>reply_status = 200, reply_body = ''{\"localidade\":\"\"}''\<rparr>"
      and l = "\<lparr>Localidade = []\<rparr>"]
  by (simp add: scenario_defs world_b_outage_def world_b_unknown_def world_b_def)

text \<open>C4 on the scenario: the reading 25 is encoded with 77 and 298.\<close>

theorem composed_response_formulas_witness:
  "writer (h_temperatureHandler world_b (get_zipcode ''01310900'') new_writer start) =
     Encode (encode_LocationInfoAndCity world_b
              \<lparr>City = sao_paulo, TempC = Finite 25, TempF = Finite 77, TempK = Finite 298\<rparr>)
       (Header_Set ''Content-Type'' ''application/json'' new_writer)
   \<and> written_body (writer (temperatureHandler world_b (get_zipcode ''01310900'') new_writer start))
       = composed_body"
  using composed_response_formulas [where r = "get_zipcode ''01310900''" and wd = world_b
      and rp = "\<lparr>reply_status = 200, reply_body = viacep_body\<rparr>"
      and l = "\<lparr>Localidade = sao_paulo\<rparr>"
      and rp' = "\<lparr>reply_status = 200, reply_body = weather_body\<rparr>"
      and weather = "\<lparr>Temperature = Finite 25\<rparr>" and c = "Finite 25" and st = start]
  by (simp add: scenario_defs writer_defs)

text \<open>
  C6 on the scenario: the locality call, then the weather call; for the unknown code the
  locality call alone, and 404.
\<close>

theorem location_completes_before_weather_witness:
  "calls (after (h_temperatureHandler world_b (get_zipcode ''01310900'') new_writer start)) =
     [\<lparr>out_url = ''https://viacep.com.br/ws/01310900/json/'', out_header = Map.empty\<rparr>,
      \<lparr>out_url = weather_url sao_paulo, out_header = Map.empty\<rparr>]
   \<and> calls (after (h_temperatureHandler world_b_unknown (get_zipcode ''01310900'') new_writer start)) =
     [\<lparr>out_url = ''https://viacep.com.br/ws/01310900/json/'', out_header = Map.empty\<rparr>]
   \<and> status_code (writer (h_temperatureHandler world_b_unknown (get_zipcode ''01310900'') new_writer start)) = 404"
  using location_completes_before_weather [where zipCode = "''01310900''"
      and r = "get_zipcode ''01310900''" and wd = world_b and st = start and n = 0
      and loc = "Inr \<lparr>reply_status = 200, reply_body = viacep_body\<rparr>"
      and res = "h_temperatureHandler world_b (get_zipcode ''01310900'') new_writer start"
      and rp = "\<lparr>reply_status = 200, reply_body = viacep_body\<rparr>"
      and l = "\<lparr>Localidade = sao_paulo\<rparr>"]
    location_completes_before_weather [where zipCode = "''01310900''"
      and r = "get_zipcode ''01310900''" and wd = world_b_unknown and st = start and n = 0
      and loc = "Inr \<lparr>reply_status = 200, reply_body = ''{\"localidade\":\"\"}''\<rparr>"
      and res = "h_temperatureHandler world_b_unknown (get_zipcode ''01310900'') new_writer start"]
  by (simp add: scenario_defs world_b_unknown_def world_b_def)

subsection \<open>Instances of the relay theorem\<close>

text \<open>
  C7 with the weather provider unreachable: service-b replies 500 with
  \<^verbatim>\<open>failed to get weather info\<close>; service-a answers 500 as well, but its body is the JSON
  decoder's error text, not the body it received.
\<close>

theorem upstream_error_body_is_replaced:
  "let ra = h_zipCodeHandler world_a_weather_down (post_zipcode ''{\"cep\":\"01310900\"}'') new_writer start
   in transport world_a_weather_down (last (calls (after ra))) =
        Inr \<lparr>reply_status = 500, reply_body = ''failed to get weather info\<newline>''\<rparr>
      \<and> status_code (writer ra) = 500
      \<and> written_body (writer ra) = ''invalid character 'i' in literal false (expecting 'l')\<newline>''
      \<and> written_body (writer ra) \<noteq> ''failed to get weather info\<newline>''"
  by (simp add: entry_defs Let_def split_def scenario_defs world_a_weather_down_sel
      isValidZipCode_iff is_digit_def b_weather_down writer_defs)

text \<open>C7 on the scenario: the reply 200 is passed on with the re-encoded body.\<close>

theorem relay_of_downstream_reply_witness:
  "status_code (writer (h_zipCodeHandler world_a (post_zipcode ''{\"cep\":\"01310900\"}'') new_writer start)) = 200
   \<and> written_body (writer (h_zipCodeHandler world_a (post_zipcode ''{\"cep\":\"01310900\"}'') new_writer start))
       = composed_body"
proof -
  define res where "res = h_zipCodeHandler world_a (post_zipcode ''{\"cep\":\"01310900\"}'') new_writer start"
  have l: "last (calls (after res)) =
      \<lparr>out_url = ''http://service-b:8081/zipcode?zipcode=01310900'',
       out_header = Inject (Some \<lparr>trace_id = scenario_id (CHR ''a'') 32 2,
                                  span_id = scenario_id (CHR ''a'') 16 2, sampled = True\<rparr>) Map.empty\<rparr>"
    unfolding res_def
    by (simp add: entry_defs Let_def split_def scenario_defs isValidZipCode_iff is_digit_def
        numeral_2_eq_2)
  have d: "transport world_a (last (calls (after res))) =
      Inr \<lparr>reply_status = 200, reply_body = composed_body\<rparr>"
    unfolding l by (simp add: scenario_defs b_reply)
  from relay_of_downstream_reply [where r = "post_zipcode ''{\"cep\":\"01310900\"}''" and wd = world_a
      and req = "\<lparr>CEP = ''01310900''\<rparr>" and st = start and res = res
      and down = "Inr \<lparr>reply_status = 200, reply_body = composed_body\<rparr>"
      and rp = "\<lparr>reply_status = 200, reply_body = composed_body\<rparr>"
      and z = "\<lparr>zr_City = sao_paulo, zr_TempC = Finite 25, zr_TempF = Finite 77, zr_TempK = Finite 298\<rparr>"]
  show ?thesis
    unfolding res_def [symmetric] d
    by (simp add: scenario_defs isValidZipCode_iff is_digit_def res_def)
qed

text \<open>C8 on the scenario and on the outage: the logs of both handlers are closed.\<close>

theorem spans_ended_exactly_once_witness:
  "spans_closed (events (after (h_zipCodeHandler world_a (post_zipcode ''{\"cep\":\"01310900\"}'') new_writer start)))
   \<and> spans_closed (events (after (h_temperatureHandler world_b_outage (get_zipcode ''01310900'') new_writer start)))"
  using spans_ended_exactly_once [where wd = world_a and r = "post_zipcode ''{\"cep\":\"01310900\"}''"
      and w = new_writer and st = start]
    spans_ended_exactly_once [where wd = world_b_outage and r = "get_zipcode ''01310900''"
      and w = new_writer and st = start]
  by (auto simp: start_def)

end
